theory Spec2Isabelle
  imports Main "HOL-Library.Char_ord" "HOL-Library.List_Lexorder" "HOL-Library.Sublist"
    "HOL-Library.AList"
begin

section \<open>Python strings\<close>

text \<open>
  A Python \<open>str\<close> is modelled as a \<open>string\<close>; a character stands for a code point below
  256. The functions below are the string methods the two scripts use.
\<close>

definition LF :: char where
  "LF = CHR 0x0A"

definition CR :: char where
  "CR = CHR 0x0D"

definition NUL :: char where
  "NUL = CHR 0x00"

text \<open>A character of 7-bit text: its code is below 128.\<close>

definition seven_bit :: "char \<Rightarrow> bool" where
  "seven_bit c = (c < CHR 0x80)"

text \<open>\<open>s.startswith(p)\<close>.\<close>

fun startswith :: "string \<Rightarrow> string \<Rightarrow> bool" where
  "startswith s [] = True"
| "startswith [] (p # ps) = False"
| "startswith (c # cs) (p # ps) = (c = p \<and> startswith cs ps)"

text \<open>\<open>s.endswith(p)\<close>.\<close>

definition endswith :: "string \<Rightarrow> string \<Rightarrow> bool" where
  "endswith s p = startswith (rev s) (rev p)"

text \<open>\<open>sub in s\<close>: \<open>sub\<close> occurs in \<open>s\<close> as a contiguous run of characters.\<close>

fun contains :: "string \<Rightarrow> string \<Rightarrow> bool" where
  "contains [] sub = (sub = [])"
| "contains (c # cs) sub = (startswith (c # cs) sub \<or> contains cs sub)"

text \<open>
  \<open>s.replace(old, new)\<close>: every occurrence of \<open>old\<close>, found from the left and not
  overlapping an earlier one, is replaced. For an empty \<open>old\<close> Python puts \<open>new\<close> before
  every character and at the end.
\<close>

fun replace_from :: "string \<Rightarrow> string \<Rightarrow> string \<Rightarrow> string" where
  "replace_from old new [] = []"
| "replace_from old new (c # cs) =
     (if startswith (c # cs) old
      then new @ replace_from old new (drop (length old - 1) cs)
      else c # replace_from old new cs)"

definition replace :: "string \<Rightarrow> string \<Rightarrow> string \<Rightarrow> string" where
  "replace s old new =
     (if old = [] then new @ concat (map (\<lambda>c. c # new) s) else replace_from old new s)"

text \<open>
  \<open>str.isspace\<close> on one character, for the code points below 256, and \<open>s.strip()\<close>.
\<close>

definition isspace :: "char \<Rightarrow> bool" where
  "isspace c = (c \<in> set [CHR 0x09, CHR 0x0A, CHR 0x0B, CHR 0x0C, CHR 0x0D,
     CHR 0x1C, CHR 0x1D, CHR 0x1E, CHR 0x1F, CHR 0x20, CHR 0x85, CHR 0xA0])"

definition strip :: "string \<Rightarrow> string" where
  "strip s = rev (dropWhile isspace (rev (dropWhile isspace s)))"

text \<open>\<open>sep.join(xs)\<close>, \<open>s.ljust(n)\<close> and \<open>s.rjust(n)\<close> (the format fields \<open><n\<close> and \<open>>n\<close>).\<close>

fun join :: "string \<Rightarrow> string list \<Rightarrow> string" where
  "join sep [] = []"
| "join sep [x] = x"
| "join sep (x # y # ys) = x @ sep @ join sep (y # ys)"

definition ljust :: "nat \<Rightarrow> string \<Rightarrow> string" where
  "ljust n s = s @ replicate (n - length s) CHR '' ''"

definition rjust :: "nat \<Rightarrow> string \<Rightarrow> string" where
  "rjust n s = replicate (n - length s) CHR '' '' @ s"

text \<open>\<open>str(n)\<close> for a natural number: its decimal digits.\<close>

definition digit_char :: "nat \<Rightarrow> char" where
  "digit_char d = ''0123456789'' ! d"

fun str_nat :: "nat \<Rightarrow> string" where
  "str_nat n = (if n < 10 then [digit_char n] else str_nat (n div 10) @ [digit_char (n mod 10)])"

declare str_nat.simps [simp del]

section \<open>Text files\<close>

text \<open>
  Reading a text file: Python opens it with universal newlines, so \<open>\r\n\<close> and a lone
  \<open>\r\<close> arrive as \<open>\n\<close>; iterating over the file yields its lines. The lines are
  modelled without their terminator.
\<close>

fun universal_newlines :: "string \<Rightarrow> string" where
  "universal_newlines [] = []"
| "universal_newlines [c] = (if c = CR then [LF] else [c])"
| "universal_newlines (c # d # cs) =
     (if c = CR \<and> d = LF then LF # universal_newlines cs
      else if c = CR then LF # universal_newlines (d # cs)
      else c # universal_newlines (d # cs))"

text \<open>
  The lines of a text whose line terminator is \<open>\n\<close>; a last line without terminator
  counts when it is not empty.
\<close>

fun lines_from :: "string \<Rightarrow> string \<Rightarrow> string list" where
  "lines_from acc [] = (if acc = [] then [] else [rev acc])"
| "lines_from acc (c # cs) =
     (if c = LF then rev acc # lines_from [] cs else lines_from (c # acc) cs)"

definition text_lines :: "string \<Rightarrow> string list" where
  "text_lines t = lines_from [] t"

section \<open>The identifier list file (\<open>read_patient_list\<close>)\<close>

text \<open>
  \<open>read_patient_list\<close> takes the text of the file: every line is stripped, and kept when
  it is not empty and does not start with \<open>#\<close>.
\<close>

definition keep_patient_id :: "string \<Rightarrow> bool" where
  "keep_patient_id patient_id = (patient_id \<noteq> [] \<and> \<not> startswith patient_id ''#'')"

definition read_patient_list :: "string \<Rightarrow> string list" where
  "read_patient_list content =
     filter keep_patient_id (map strip (text_lines (universal_newlines content)))"

section \<open>The record-type label of a file name (\<open>map_filename_to_resource_type\<close>)\<close>

text \<open>The table \<open>type_mapping\<close>, in the order the dictionary literal lists it.\<close>

definition type_mapping :: "(string \<times> string) list" where
  "type_mapping =
    [(''MimicPatient'', ''Patient''),
     (''MimicCondition'', ''Condition''),
     (''MimicEncounter'', ''Encounter''),
     (''MimicLocation'', ''Location''),
     (''MimicOrganization'', ''Organization''),
     (''MimicMedication'', ''Medication''),
     (''MimicMedicationAdministration'', ''MedicationAdministration''),
     (''MimicMedicationDispense'', ''MedicationDispense''),
     (''MimicMedicationRequest'', ''MedicationRequest''),
     (''MimicMedicationStatement'', ''MedicationStatement''),
     (''MimicObservation'', ''Observation''),
     (''MimicProcedure'', ''Procedure''),
     (''MimicSpecimen'', ''Specimen'')]"

text \<open>The loop over the table: the first entry whose pattern is a prefix decides.\<close>

fun find_pattern :: "(string \<times> string) list \<Rightarrow> string \<Rightarrow> string option" where
  "find_pattern [] base_name = None"
| "find_pattern ((pattern, resource_type) # rest) base_name =
     (if startswith base_name pattern then Some resource_type
      else find_pattern rest base_name)"

definition fallback_type :: "string \<Rightarrow> string" where
  "fallback_type base_name =
     (if contains base_name ''Patient'' then ''Patient''
      else if contains base_name ''Condition'' then ''Condition''
      else if contains base_name ''Encounter'' then ''Encounter''
      else if contains base_name ''Observation'' then ''Observation''
      else if contains base_name ''Medication'' then
        (if contains base_name ''Administration'' then ''MedicationAdministration''
         else if contains base_name ''Dispense'' then ''MedicationDispense''
         else if contains base_name ''Request'' then ''MedicationRequest''
         else if contains base_name ''Statement'' then ''MedicationStatement''
         else ''Medication'')
      else if contains base_name ''Procedure'' then ''Procedure''
      else if contains base_name ''Specimen'' then ''Specimen''
      else if contains base_name ''Location'' then ''Location''
      else if contains base_name ''Organization'' then ''Organization''
      else ''Unknown'')"

definition map_filename_to_resource_type :: "string \<Rightarrow> string" where
  "map_filename_to_resource_type filename =
     (let base_name = replace (replace filename ''.ndjson.gz'' []) ''.ndjson'' []
      in case find_pattern type_mapping base_name of
           Some resource_type \<Rightarrow> resource_type
         | None \<Rightarrow> fallback_type base_name)"

section \<open>Paths\<close>

text \<open>
  \<open>Path.stem\<close>: the name without its last suffix. A name has a suffix when its last dot
  is neither its first nor its last character.
\<close>

definition stem :: "string \<Rightarrow> string" where
  "stem name =
     (let ext = takeWhile (\<lambda>c. c \<noteq> CHR ''.'') (rev name);
          i = length name - length ext - 1
      in if CHR ''.'' \<in> set name \<and> 0 < i \<and> ext \<noteq> [] then take i name else name)"

section \<open>The world the filter runs in\<close>

text \<open>
  A file is the sequence of its lines, each line the characters between two line feeds.
  For 7-bit text the bytes of a file and the characters Python reads from it are the
  same. A source file of the FHIR directory is given by the lines of its decompressed
  content, or cannot be read. A directory lists its files by name. The world holds the
  FHIR directory, the temporary directory (absent until \<open>mkdtemp\<close> creates it, under the
  name \<open>mkdtemp\<close> picks), the directory named by \<open>--output-dir\<close> (absent until it is
  created) and the log.
\<close>

datatype source = Lines "string list" | Unreadable

type_synonym directory = "(string \<times> string list) list"

datatype level = INFO | WARNING | ERROR

datatype message =
    Initialized nat int
  | CreatedTemp string
  | CleanedUp string
  | FileNotFound string
  | GrepFailed string
  | GrepTimeout string
  | ErrorFiltering string
  | Processing string
  | RecordsFiltered string nat
  | NoMatchesFound string
  | NoNdjsonFiles
  | FoundFiles nat int
  | ErrorProcessing string
  | SummaryWritten
  | ReadPatientIds nat
  | NoPatientIds
  | Starting nat
  | NoResourcesFound
  | Completed
  | FilteredTotal nat
  | FilesCopied string
  | FilesIn "string option"
  | Preserved "string option"

record world =
  fhir :: "(string \<times> source) list"
  arena :: "directory option"
  outdir :: "directory option"
  events :: "(level \<times> message) list"

text \<open>
  What a run does not decide itself: the suffix \<open>mkdtemp\<close> picks for the temporary
  directory, the order in which Python iterates over a set of strings, the order in which
  the tasks of the pool complete, whether \<open>subprocess.run\<close> can start \<open>zgrep\<close> at all
  (it raises otherwise), the number of processors, which lines of an input that is not
  7-bit text without NUL \<open>grep\<close> takes as binary and does not print (by their position
  in the input), whether Python can decode a file that is not 7-bit text, and whether a
  directory that is not there yet can be created under a given path.
\<close>

record env =
  tmp_suffix :: string
  set_iter :: "string set \<Rightarrow> string list"
  completion :: "string list \<Rightarrow> string list"
  spawn_ok :: bool
  cpu_count :: nat
  grep_suppresses :: "string list \<Rightarrow> nat \<Rightarrow> bool"
  decodes :: "string list \<Rightarrow> bool"
  can_mkdir :: "string \<Rightarrow> bool"

datatype exn = TypeError | ValueError | OSError | UnicodeDecodeError

text \<open>\<open>tempfile.mkdtemp(prefix=...)\<close>: the name of the directory it creates.\<close>

definition mkdtemp :: "env \<Rightarrow> string \<Rightarrow> string" where
  "mkdtemp env pre = pre @ tmp_suffix env"

definition logmsg :: "level \<Rightarrow> message \<Rightarrow> world \<Rightarrow> world" where
  "logmsg lvl m w = w\<lparr>events := events w @ [(lvl, m)]\<rparr>"

text \<open>\<open>dir.glob("*" + ending)\<close>: the names of the directory that end with \<open>ending\<close>.\<close>

definition glob :: "(string \<times> 'a) list \<Rightarrow> string \<Rightarrow> string list" where
  "glob dir ending = filter (\<lambda>name. endswith name ending) (map fst dir)"

text \<open>
  The text of a file to which every string of a list was written, each followed by
  \<open>\n\<close>, and the lines of that file.
\<close>

definition unlines :: "string list \<Rightarrow> string" where
  "unlines xs = concat (map (\<lambda>x. x @ [LF]) xs)"

definition written :: "string list \<Rightarrow> string list" where
  "written xs = text_lines (unlines xs)"

text \<open>
  \<open>sum(1 for _ in f)\<close> on a file opened for reading in text mode: Python decodes the
  file, which raises for content it cannot decode (7-bit text always decodes), and
  counts the lines it then sees, so a carriage return ends a line as well.
\<close>

definition line_count :: "env \<Rightarrow> string list \<Rightarrow> nat option" where
  "line_count env ls =
     (if list_all (list_all seven_bit) ls \<or> decodes env ls
      then Some (length (text_lines (universal_newlines (unlines ls))))
      else None)"

text \<open>\<open>if path.exists(): path.unlink()\<close>, for a file of the temporary directory.\<close>

definition unlink_if_exists :: "string \<Rightarrow> world \<Rightarrow> world" where
  "unlink_if_exists name w = w\<lparr>arena := map_option (AList.delete name) (arena w)\<rparr>"

section \<open>The matcher (\<open>zgrep -F -f pattern_file input_file\<close>)\<close>

text \<open>
  \<open>zgrep -F -f\<close> takes one fixed string from every line of the pattern file and selects
  the lines of the decompressed input that contain one of them. Its exit status is 0 when
  a line was selected, 1 when none was, and 2 when a file could not be read. It prints
  the selected lines of an input that is 7-bit text without NUL. Other input it may take
  as binary: then it still selects, and leaves out of its output the selected lines the
  environment names.
\<close>

definition selected :: "string list \<Rightarrow> string list \<Rightarrow> string list" where
  "selected pats ls = filter (\<lambda>l. list_ex (contains l) pats) ls"

definition grep_text :: "string \<Rightarrow> bool" where
  "grep_text l = list_all (\<lambda>c. c \<noteq> NUL \<and> seven_bit c) l"

definition printed :: "env \<Rightarrow> string list \<Rightarrow> string list \<Rightarrow> string list" where
  "printed env pats ls =
     (if list_all grep_text ls then selected pats ls
      else map snd (filter (\<lambda>(i, l). list_ex (contains l) pats \<and> \<not> grep_suppresses env ls i)
                      (enumerate 0 ls)))"

definition zgrep_F :: "env \<Rightarrow> string list option \<Rightarrow> source \<Rightarrow> int \<times> string list" where
  "zgrep_F env pattern_file src =
     (case (pattern_file, src) of
        (Some pats, Lines ls) \<Rightarrow> (if selected pats ls = [] then 1 else 0, printed env pats ls)
      | _ \<Rightarrow> (2, []))"

section \<open>\<open>SimpleBatchFilter\<close>\<close>

record SimpleBatchFilter =
  patient_ids :: "string set"
  temp_dir :: "string option"
  max_workers :: int

definition default_workers :: "env \<Rightarrow> int" where
  "default_workers env = max 1 (int (cpu_count env) - 1)"

definition init :: "env \<Rightarrow> string list \<Rightarrow> int option \<Rightarrow> world \<Rightarrow> SimpleBatchFilter \<times> world" where
  "init env ids threads w =
     (let workers = (case threads of
                       None \<Rightarrow> default_workers env
                     | Some n \<Rightarrow> if n = 0 then default_workers env else n)
      in (\<lparr>patient_ids = set ids, temp_dir = None, max_workers = workers\<rparr>,
          logmsg INFO (Initialized (length ids) workers) w))"

definition create_temp_directory :: "env \<Rightarrow> SimpleBatchFilter \<Rightarrow> world \<Rightarrow> SimpleBatchFilter \<times> world" where
  "create_temp_directory env self w =
     (let tmp = mkdtemp env ''simple_batch_''
      in (self\<lparr>temp_dir := Some tmp\<rparr>, logmsg INFO (CreatedTemp tmp) (w\<lparr>arena := Some []\<rparr>)))"

text \<open>
  \<open>cleanup_temp_directory\<close>: \<open>self.temp_dir.exists()\<close> holds when the handle names the
  temporary directory of the world and that directory is there; \<open>rmtree\<close> removes it.
\<close>

definition cleanup_temp_directory :: "env \<Rightarrow> SimpleBatchFilter \<Rightarrow> world \<Rightarrow> world" where
  "cleanup_temp_directory env self w =
     (case (temp_dir self, arena w) of
        (Some tmp, Some d) \<Rightarrow>
          if tmp = mkdtemp env ''simple_batch_''
          then logmsg INFO (CleanedUp tmp) (w\<lparr>arena := None\<rparr>)
          else w
      | _ \<Rightarrow> w)"

text \<open>
  The handler \<open>except Exception\<close> of \<open>grep_filter_file\<close>: it logs, removes the output
  file when there is one, and returns 0.
\<close>

definition on_exception :: "string \<Rightarrow> string \<Rightarrow> world \<Rightarrow> nat \<times> world" where
  "on_exception input_file output_file w =
     (0, unlink_if_exists output_file (logmsg ERROR (ErrorFiltering input_file) w))"

definition pattern_file_name :: "string \<Rightarrow> string" where
  "pattern_file_name input_file = ''patterns_'' @ stem input_file @ ''.txt''"

text \<open>
  \<open>grep_filter_file\<close>. Inside the \<open>try\<close>: the pattern file is written, the output file
  is opened for writing, the matcher runs with the output file as its standard output,
  the pattern file is unlinked, and the exit status decides. Building the path of the
  pattern file raises when \<open>temp_dir\<close> is \<open>None\<close>, opening it raises when the temporary
  directory is gone, \<open>subprocess.run\<close> raises when the matcher cannot be started,
  unlinking or opening a file that is gone raises, and counting the lines of the output
  file raises when Python cannot decode it; every one of them ends in the handler.
  No timeout is passed to \<open>subprocess.run\<close>, so it never raises \<open>TimeoutExpired\<close>.
\<close>

definition grep_filter_file ::
  "env \<Rightarrow> SimpleBatchFilter \<Rightarrow> string \<Rightarrow> string \<Rightarrow> string list \<Rightarrow> world \<Rightarrow> nat \<times> world" where
  "grep_filter_file env self input_file output_file patterns w =
     (case map_of (fhir w) input_file of
        None \<Rightarrow> (0, logmsg WARNING (FileNotFound input_file) w)
      | Some src \<Rightarrow>
          (case (temp_dir self, arena w) of
             (Some tmp, Some d) \<Rightarrow>
               (let pattern_file = pattern_file_name input_file;
                    d1 = AList.update pattern_file (written patterns) d;
                    d2 = AList.update output_file [] d1
                in if \<not> spawn_ok env
                   then on_exception input_file output_file (w\<lparr>arena := Some d2\<rparr>)
                   else
                     (let (returncode, out) = zgrep_F env (map_of d2 pattern_file) src;
                          d3 = AList.update output_file out d2
                      in if map_of d3 pattern_file = None
                         then on_exception input_file output_file (w\<lparr>arena := Some d3\<rparr>)
                         else
                           (let w4 = w\<lparr>arena := Some (AList.delete pattern_file d3)\<rparr>
                            in if returncode = 0 then
                                 (case map_of (AList.delete pattern_file d3) output_file of
                                    Some ls \<Rightarrow>
                                      (case line_count env ls of
                                         Some count \<Rightarrow> (count, w4)
                                       | None \<Rightarrow> on_exception input_file output_file w4)
                                  | None \<Rightarrow> on_exception input_file output_file w4)
                               else if returncode = 1 then (0, unlink_if_exists output_file w4)
                               else (0, unlink_if_exists output_file
                                          (logmsg WARNING (GrepFailed input_file) w4)))))
           | _ \<Rightarrow> on_exception input_file output_file w))"

text \<open>
  \<open>filter_single_file\<close> returns the pair \<open>(output_file, count)\<close>; \<open>None\<close> stands for
  Python's \<open>None\<close>. \<open>self.temp_dir / name\<close> raises \<open>TypeError\<close> when \<open>temp_dir\<close> is
  \<open>None\<close>. File sizes and elapsed times are only logged and are left out.
\<close>

definition filter_single_file ::
  "env \<Rightarrow> SimpleBatchFilter \<Rightarrow> string \<Rightarrow> string list \<Rightarrow> world
     \<Rightarrow> (exn + string option \<times> nat) \<times> world" where
  "filter_single_file env self fhir_file patterns w =
     (if map_of (fhir w) fhir_file = None
      then (Inr (None, 0), logmsg WARNING (FileNotFound fhir_file) w)
      else
        (let w1 = logmsg INFO (Processing fhir_file) w
         in case temp_dir self of
              None \<Rightarrow> (Inl TypeError, w1)
            | Some tmp \<Rightarrow>
                (let output_file = replace fhir_file ''.gz'' [];
                     (count, w2) = grep_filter_file env self fhir_file output_file patterns w1;
                     w3 = logmsg INFO (if count > 0 then RecordsFiltered fhir_file count
                                       else NoMatchesFound fhir_file) w2
                 in (Inr (Some output_file, count), w3))))"

text \<open>
  The pool. The tasks are run one after the other, in the order in which they complete,
  as they do with one worker; the loop over \<open>as_completed\<close> adds the count of every task
  and logs the exception of a task that raised. With several workers the log entries of
  the tasks interleave.
\<close>

fun run_pool ::
  "env \<Rightarrow> SimpleBatchFilter \<Rightarrow> string list \<Rightarrow> string list \<Rightarrow> nat \<Rightarrow> world \<Rightarrow> nat \<times> world" where
  "run_pool env self patterns [] total_filtered w = (total_filtered, w)"
| "run_pool env self patterns (fhir_file # rest) total_filtered w =
     (case filter_single_file env self fhir_file patterns w of
        (Inr (output_file, count), w') \<Rightarrow>
          run_pool env self patterns rest (total_filtered + count) w'
      | (Inl e, w') \<Rightarrow>
          run_pool env self patterns rest total_filtered
            (logmsg ERROR (ErrorProcessing fhir_file) w'))"

text \<open>
  \<open>filter_all_files\<close>. \<open>ThreadPoolExecutor\<close> raises \<open>ValueError\<close> for a number of
  workers that is not positive.
\<close>

definition filter_all_files ::
  "env \<Rightarrow> SimpleBatchFilter \<Rightarrow> world \<Rightarrow> (exn + nat) \<times> SimpleBatchFilter \<times> world" where
  "filter_all_files env self w =
     (let (self1, w1) = (if temp_dir self = None then create_temp_directory env self w
                         else (self, w));
          fhir_files = glob (fhir w1) ''.ndjson.gz''
      in if fhir_files = [] then (Inr 0, self1, logmsg ERROR NoNdjsonFiles w1)
         else
           (let w2 = logmsg INFO (FoundFiles (length fhir_files) (max_workers self1)) w1;
                patterns = set_iter env (patient_ids self1)
            in if max_workers self1 \<le> 0 then (Inl ValueError, self1, w2)
               else
                 (let (total_filtered, w3) =
                        run_pool env self1 patterns (completion env fhir_files) 0 w2
                  in (Inr total_filtered, self1, w3))))"

text \<open>
  \<open>create_summary\<close>: the lines written to \<open>SUMMARY.txt\<close>. The loop over the sorted
  \<open>*.ndjson\<close> files counts the lines of each file in text mode and writes its row; a
  file Python cannot decode raises \<open>UnicodeDecodeError\<close>, which leaves
  \<open>create_summary\<close> with the rows written so far in the file.
\<close>

definition summary_row :: "string \<Rightarrow> nat \<Rightarrow> string" where
  "summary_row name count = ljust 40 name @ '' '' @ rjust 8 (str_nat count) @ '' resources''"

text \<open>The rows counted before the first file that cannot be decoded, and whether all
  files were counted.\<close>

fun counted_rows :: "env \<Rightarrow> directory \<Rightarrow> (string \<times> nat) list \<times> bool" where
  "counted_rows env [] = ([], True)"
| "counted_rows env ((name, ls) # rest) =
     (case line_count env ls of
        None \<Rightarrow> ([], False)
      | Some count \<Rightarrow>
          (case counted_rows env rest of (rows, ok) \<Rightarrow> ((name, count) # rows, ok)))"

definition ndjson_files :: "directory \<Rightarrow> directory" where
  "ndjson_files d = sort_key fst (filter (\<lambda>(name, ls). endswith name ''.ndjson'') d)"

definition summary_text :: "env \<Rightarrow> SimpleBatchFilter \<Rightarrow> directory \<Rightarrow> string list" where
  "summary_text env self d =
     (let (rows, ok) = counted_rows env (ndjson_files d)
      in [''SIMPLE BATCH FILTERING SUMMARY'',
          replicate 40 CHR ''='',
          [],
          ''Target patients: '' @ str_nat (card (patient_ids self)),
          ''Patient IDs: '' @ join '', '' (sort (take 5 (set_iter env (patient_ids self))))
             @ (if card (patient_ids self) > 5 then ''...'' else []),
          []]
         @ map (\<lambda>(name, count). summary_row name count) rows
         @ (if ok then [replicate 50 CHR ''-'',
                        summary_row ''TOTAL'' (sum_list (map snd rows))]
            else []))"

definition create_summary ::
  "env \<Rightarrow> SimpleBatchFilter \<Rightarrow> nat \<Rightarrow> world \<Rightarrow> exn option \<times> world" where
  "create_summary env self total_filtered w =
     (case temp_dir self of
        None \<Rightarrow> (Some TypeError, w)
      | Some tmp \<Rightarrow>
          (case arena w of
             None \<Rightarrow> (Some OSError, w)
           | Some d \<Rightarrow>
               (let d1 = AList.update ''SUMMARY.txt'' [] d;
                    d2 = AList.update ''SUMMARY.txt'' (written (summary_text env self d1)) d1
                in if snd (counted_rows env (ndjson_files d1))
                   then (None, logmsg INFO SummaryWritten (w\<lparr>arena := Some d2\<rparr>))
                   else (Some UnicodeDecodeError, w\<lparr>arena := Some d2\<rparr>))))"

section \<open>\<open>main\<close>\<close>

text \<open>
  The arguments after parsing: the identifiers come from the text of the file named by
  \<open>--patient-list\<close> or from \<open>--patients\<close>.
\<close>

datatype id_source = PatientList string | Patients "string list"

record args =
  id_arg :: id_source
  keep_temp :: bool
  output_dir :: "string option"
  threads :: "int option"

text \<open>
  The copy to \<open>--output-dir\<close>: \<open>mkdir(exist_ok=True)\<close> creates the directory when it is
  not there and raises when it cannot; then every \<open>*.ndjson\<close> file of the temporary
  directory and \<open>SUMMARY.txt\<close> are copied into it. A temporary directory that is gone
  lists no file.
\<close>

definition copy_files :: "directory \<Rightarrow> directory \<Rightarrow> directory" where
  "copy_files files target = fold (\<lambda>(name, ls). AList.update name ls) files target"

definition copy_to_output :: "env \<Rightarrow> string \<Rightarrow> world \<Rightarrow> exn option \<times> world" where
  "copy_to_output env output_path w =
     (if outdir w = None \<and> \<not> can_mkdir env output_path then (Some OSError, w)
      else
        (let d = (case arena w of None \<Rightarrow> [] | Some d \<Rightarrow> d);
             target = (case outdir w of None \<Rightarrow> [] | Some t \<Rightarrow> t);
             t1 = copy_files (filter (\<lambda>(name, ls). endswith name ''.ndjson'') d) target;
             t2 = copy_files (filter (\<lambda>(name, ls). name = ''SUMMARY.txt'') d) t1
         in (None, logmsg INFO (FilesCopied output_path) (w\<lparr>outdir := Some t2\<rparr>))))"

text \<open>
  The end of the \<open>try\<close> block, reached when some line was kept: the summary, the two
  log lines, and the copy to \<open>--output-dir\<close> when one is given.
\<close>

definition report_results ::
  "env \<Rightarrow> args \<Rightarrow> SimpleBatchFilter \<Rightarrow> nat \<Rightarrow> world \<Rightarrow> exn option \<times> world" where
  "report_results env a filter_instance total_filtered w =
     (case create_summary env filter_instance total_filtered w of
        (Some e, w') \<Rightarrow> (Some e, w')
      | (None, w') \<Rightarrow>
          (let w5 = logmsg INFO (FilteredTotal total_filtered) (logmsg INFO Completed w')
           in case output_dir a of
                None \<Rightarrow> (None, logmsg INFO (FilesIn (temp_dir filter_instance)) w5)
              | Some output_path \<Rightarrow>
                  if output_path = []
                  then (None, logmsg INFO (FilesIn (temp_dir filter_instance)) w5)
                  else copy_to_output env output_path w5))"

text \<open>
  The \<open>try\<close> block of \<open>main\<close>: it returns the exception that leaves it, when one does,
  the filter object and the world.
\<close>

definition try_block ::
  "env \<Rightarrow> args \<Rightarrow> SimpleBatchFilter \<Rightarrow> world \<Rightarrow> exn option \<times> SimpleBatchFilter \<times> world" where
  "try_block env a filter_instance w =
     (case filter_all_files env filter_instance w of
        (Inl e, inst, w3) \<Rightarrow> (Some e, inst, w3)
      | (Inr total_filtered, inst, w3) \<Rightarrow>
          if total_filtered = 0 then (None, inst, logmsg WARNING NoResourcesFound w3)
          else (case report_results env a inst total_filtered w3 of
                  (raised, w4) \<Rightarrow> (raised, inst, w4)))"

text \<open>
  \<open>main\<close> returns the exception that leaves it, when one does, and the world. The body
  of \<open>finally\<close> runs on every way out of the \<open>try\<close> block.
\<close>

definition main :: "env \<Rightarrow> args \<Rightarrow> world \<Rightarrow> exn option \<times> world" where
  "main env a w =
     (let (ids, w0) =
            (case id_arg a of
               PatientList content \<Rightarrow>
                 (read_patient_list content,
                  logmsg INFO (ReadPatientIds (length (read_patient_list content))) w)
             | Patients ps \<Rightarrow> (ps, w))
      in if ids = [] then (None, logmsg ERROR NoPatientIds w0)
         else
           (let w1 = logmsg INFO (Starting (length ids)) w0;
                (filter_instance, w2) = init env ids (threads a) w1;
                (raised, inst, w4) = try_block env a filter_instance w2
            in (raised, logmsg INFO (Preserved (temp_dir inst)) w4)))"

section \<open>Notions the properties are stated with\<close>

text \<open>
  The lines of \<open>ls\<close> that contain at least one of the identifiers as a contiguous run
  of characters, in the order of \<open>ls\<close>.
\<close>

definition lines_containing :: "string list \<Rightarrow> string list \<Rightarrow> string list" where
  "lines_containing ids ls = filter (\<lambda>l. \<exists>p\<in>set ids. sublist p l) ls"

text \<open>
  The lines the matcher selects from \<open>ls\<close> when the pattern file was written from the
  identifiers \<open>patterns\<close>.
\<close>

definition matching_lines :: "string list \<Rightarrow> string list \<Rightarrow> string list" where
  "matching_lines patterns ls = selected (written patterns) ls"

text \<open>
  A line of plain text: 7-bit characters, none of them NUL or a line feed, and a carriage
  return at most as its last character (the line of a file with CRLF line ends).
\<close>

definition plain_line :: "string \<Rightarrow> bool" where
  "plain_line l =
     (list_all (\<lambda>c. c \<noteq> NUL \<and> c \<noteq> LF \<and> seven_bit c) l \<and> CR \<notin> set (butlast l))"

text \<open>A line without the carriage return at its end, when it has one.\<close>

definition without_cr :: "string \<Rightarrow> string" where
  "without_cr l = (if l \<noteq> [] \<and> last l = CR then butlast l else l)"

text \<open>
  A line of the identifier file that is blank (empty, or white space only) or a comment
  (its first character that is not white space is \<open>#\<close>).
\<close>

definition ignored_line :: "string \<Rightarrow> bool" where
  "ignored_line l = (list_all isspace l \<or> prefix ''#'' (dropWhile isspace l))"

text \<open>The content of a file of the temporary directory, when the file is there.\<close>

definition arena_file :: "world \<Rightarrow> string \<Rightarrow> string list option" where
  "arena_file w name = (case arena w of None \<Rightarrow> None | Some d \<Rightarrow> map_of d name)"

text \<open>The identifier list \<open>main\<close> works with.\<close>

definition ids_of :: "args \<Rightarrow> string list" where
  "ids_of a = (case id_arg a of PatientList content \<Rightarrow> read_patient_list content
               | Patients ps \<Rightarrow> ps)"

text \<open>The world of \<open>main\<close> at the moment \<open>filter_all_files\<close> has returned.\<close>

definition after_filtering :: "env \<Rightarrow> args \<Rightarrow> world \<Rightarrow> world" where
  "after_filtering env a w =
     (let w0 = (case id_arg a of
                  PatientList content \<Rightarrow> logmsg INFO (ReadPatientIds (length (ids_of a))) w
                | Patients ps \<Rightarrow> w);
          w1 = logmsg INFO (Starting (length (ids_of a))) w0;
          (filter_instance, w2) = init env (ids_of a) (threads a) w1
      in snd (snd (filter_all_files env filter_instance w2)))"

text \<open>The log entries a step added.\<close>

definition new_events :: "world \<Rightarrow> world \<Rightarrow> (level \<times> message) list" where
  "new_events w w' = drop (length (events w)) (events w')"

text \<open>A step only added log entries, and none of them carries the message \<open>m\<close>.\<close>

definition logs_without :: "message \<Rightarrow> world \<Rightarrow> world \<Rightarrow> bool" where
  "logs_without m w w' =
     (prefix (events w) (events w') \<and> m \<notin> snd ` set (new_events w w'))"

section \<open>Example inputs\<close>

definition env_ex :: env where
  "env_ex = \<lparr>tmp_suffix = ''k3x9'', set_iter = (\<lambda>S. [''P001'', ''P002'']),
             completion = (\<lambda>fs. fs), spawn_ok = True, cpu_count = 4,
             grep_suppresses = (\<lambda>ls i. True), decodes = (\<lambda>ls. True),
             can_mkdir = (\<lambda>p. True)\<rparr>"

definition env_no_zgrep :: env where
  "env_no_zgrep = env_ex\<lparr>spawn_ok := False\<rparr>"

definition self_ex :: SimpleBatchFilter where
  "self_ex = \<lparr>patient_ids = {''P001'', ''P002''}, temp_dir = Some ''simple_batch_k3x9'',
              max_workers = 3\<rparr>"

definition type_a_lines :: "string list" where
  \<open>type_a_lines = [''{"subject":"P001"}'', ''{"subject":"P999"}'', ''{"subject":"P002"}'']\<close>

definition world_ex :: world where
  "world_ex = \<lparr>fhir = [(''TypeA.ndjson.gz'', Lines type_a_lines)], arena = Some [],
               outdir = None, events = []\<rparr>"

definition world_fresh :: world where
  "world_fresh = world_ex\<lparr>arena := None\<rparr>"

definition world_empty :: world where
  "world_empty = \<lparr>fhir = [], arena = None, outdir = None, events = []\<rparr>"

definition world_mixed :: world where
  "world_mixed = \<lparr>fhir = [(''TypeA.ndjson.gz'', Lines type_a_lines),
                           (''TypeB.ndjson.gz'', Unreadable)],
                 arena = Some [], outdir = None, events = []\<rparr>"

definition args_ex :: args where
  "args_ex = \<lparr>id_arg = Patients [''P001'', ''P002''], keep_temp = False,
              output_dir = None, threads = None\<rparr>"

definition args_no_ids :: args where
  "args_no_ids = args_ex\<lparr>id_arg := PatientList (unlines [[], ''# nobody''])\<rparr>"

definition args_no_match :: args where
  "args_no_match = args_ex\<lparr>id_arg := Patients [''P777'']\<rparr>"

definition env_no_match :: env where
  "env_no_match = env_ex\<lparr>set_iter := (\<lambda>S. [''P777''])\<rparr>"

definition world_clash :: world where
  "world_clash = \<lparr>fhir = [(''TypeA.ndjson.gz'', Lines type_a_lines),
                           (''TypeA.gz.ndjson.gz'', Unreadable)],
                 arena = None, outdir = None, events = []\<rparr>"

definition args_one_worker :: args where
  "args_one_worker = args_ex\<lparr>threads := Some 1\<rparr>"

definition world_partial :: world where
  "world_partial = world_mixed\<lparr>arena := None\<rparr>"

definition id_with_line_feed :: string where
  "id_with_line_feed = [CHR ''A'', LF, CHR ''B'']"

definition world_lf :: world where
  \<open>world_lf = world_ex\<lparr>fhir := [(''TypeA.ndjson.gz'', Lines [''{"subject":"A"}''])]\<rparr>\<close>

definition six_ids :: "string list" where
  "six_ids = [''P1'', ''P2'', ''P3'', ''P4'', ''P5'', ''P6'']"

definition args_six :: args where
  "args_six = args_ex\<lparr>id_arg := Patients (''P001'' # six_ids)\<rparr>"

definition env_order_a :: env where
  "env_order_a = env_ex\<lparr>set_iter := (\<lambda>S. ''P001'' # six_ids)\<rparr>"

definition env_order_b :: env where
  "env_order_b = env_ex\<lparr>set_iter := (\<lambda>S. rev (''P001'' # six_ids))\<rparr>"

section \<open>Strings and text files\<close>

lemma LF_neq_CR [simp]: "LF \<noteq> CR" "CR \<noteq> LF"
  by (simp_all add: LF_def CR_def)

lemma startswith_prefix: "startswith s p \<longleftrightarrow> prefix p s"
  by (induction s p rule: startswith.induct) auto

lemma contains_sublist: "contains s sub \<longleftrightarrow> sublist sub s"
  by (induction s) (auto simp: startswith_prefix sublist_Cons_right)

lemma lines_from_line:
  "LF \<notin> set p \<Longrightarrow> lines_from acc (p @ LF # t) = (rev acc @ p) # lines_from [] t"
  by (induction p arbitrary: acc) auto

lemma lines_from_tail:
  "LF \<notin> set t \<Longrightarrow> lines_from acc t = (if acc = [] \<and> t = [] then [] else [rev acc @ t])"
  by (induction t arbitrary: acc) auto

lemma text_lines_unlines_tail:
  "\<forall>p\<in>set ps. LF \<notin> set p \<Longrightarrow> LF \<notin> set t \<Longrightarrow>
   text_lines (unlines ps @ t) = ps @ (if t = [] then [] else [t])"
proof (induction ps)
  case Nil
  then show ?case by (simp add: text_lines_def unlines_def lines_from_tail)
next
  case (Cons p ps)
  then have "lines_from [] (p @ LF # (unlines ps @ t)) = p # lines_from [] (unlines ps @ t)"
    using lines_from_line [of p "[]" "unlines ps @ t"] by simp
  with Cons show ?case by (simp add: text_lines_def unlines_def)
qed

lemma text_lines_unlines: "\<forall>p\<in>set ps. LF \<notin> set p \<Longrightarrow> text_lines (unlines ps) = ps"
  using text_lines_unlines_tail [of ps "[]"] by simp

lemma universal_newlines_id: "CR \<notin> set t \<Longrightarrow> universal_newlines t = t"
  by (induction t rule: universal_newlines.induct) auto

lemma universal_newlines_lf:
  "CR \<notin> set p \<Longrightarrow> universal_newlines (p @ LF # r) = p @ LF # universal_newlines r"
proof (induction p)
  case Nil
  show ?case by (cases r) simp_all
next
  case (Cons c p)
  then show ?case by (cases p) auto
qed

lemma universal_newlines_crlf:
  "CR \<notin> set p \<Longrightarrow> universal_newlines (p @ CR # LF # r) = p @ LF # universal_newlines r"
proof (induction p)
  case Nil
  show ?case by simp
next
  case (Cons c p)
  then show ?case by (cases p) auto
qed

lemma universal_newlines_line:
  assumes "CR \<notin> set (butlast l)"
  shows "universal_newlines (l @ LF # r) = without_cr l @ LF # universal_newlines r"
proof (cases "l \<noteq> [] \<and> last l = CR")
  case True
  then obtain p where l: "l = p @ [CR]" by (metis append_butlast_last_id)
  with assms have "CR \<notin> set p" by simp
  from universal_newlines_crlf [OF this, of r] l show ?thesis
    by (simp add: without_cr_def)
next
  case False
  with assms have "CR \<notin> set l"
    by (cases l rule: rev_cases) auto
  with False show ?thesis by (auto simp: universal_newlines_lf without_cr_def)
qed

lemma universal_newlines_unlines:
  "\<forall>l\<in>set ls. CR \<notin> set (butlast l) \<Longrightarrow> CR \<notin> set t \<Longrightarrow>
   universal_newlines (unlines ls @ t) = unlines (map without_cr ls) @ t"
proof (induction ls)
  case Nil
  then show ?case by (simp add: unlines_def universal_newlines_id)
next
  case (Cons l ls)
  then have "universal_newlines (l @ LF # (unlines ls @ t))
      = without_cr l @ LF # universal_newlines (unlines ls @ t)"
    by (simp add: universal_newlines_line)
  with Cons show ?case by (simp add: unlines_def)
qed

lemma without_cr_set: "set (without_cr l) \<subseteq> set l"
  by (auto simp: without_cr_def dest: in_set_butlastD)

text \<open>
  The lines Python reads from a file whose lines end with a line feed or with a carriage
  return and a line feed, and whose last line may lack the line end.
\<close>

lemma read_lines:
  assumes "\<forall>l\<in>set ls. LF \<notin> set l \<and> CR \<notin> set (butlast l)"
    and "LF \<notin> set t" and "CR \<notin> set t"
  shows "text_lines (universal_newlines (unlines ls @ t))
    = map without_cr ls @ (if t = [] then [] else [t])"
proof -
  from assms have "universal_newlines (unlines ls @ t) = unlines (map without_cr ls) @ t"
    by (simp add: universal_newlines_unlines)
  moreover from assms(1) have "\<forall>p\<in>set (map without_cr ls). LF \<notin> set p"
    using without_cr_set by fastforce
  ultimately show ?thesis using assms(2) by (simp add: text_lines_unlines_tail)
qed

lemma written_id: "\<forall>p\<in>set ps. LF \<notin> set p \<Longrightarrow> written ps = ps"
  by (simp add: written_def text_lines_unlines)

lemma selected_sublist: "selected pats ls = filter (\<lambda>l. \<exists>p\<in>set pats. sublist p l) ls"
  by (simp add: selected_def list_ex_iff contains_sublist)

text \<open>
  For identifiers without a line feed the matcher selects exactly the lines that contain
  one of them.
\<close>

lemma matching_lines_containing:
  "\<forall>p\<in>set patterns. LF \<notin> set p \<Longrightarrow> matching_lines patterns ls = lines_containing patterns ls"
  by (simp add: matching_lines_def written_id selected_sublist lines_containing_def)

text \<open>
  Plain lines are text for \<open>grep\<close>, Python decodes them, and it counts as many lines as
  there are.
\<close>

lemma plain_line_grep_text: "plain_line l \<Longrightarrow> grep_text l"
  by (auto simp: plain_line_def grep_text_def list_all_iff)

lemma printed_plain: "list_all plain_line ls \<Longrightarrow> printed env pats ls = selected pats ls"
  by (auto simp: printed_def list_all_iff plain_line_grep_text)

lemma line_count_plain:
  assumes "list_all plain_line ls"
  shows "line_count env ls = Some (length ls)"
proof -
  from assms have 7: "list_all (list_all seven_bit) ls"
    by (auto simp: plain_line_def list_all_iff)
  from assms have "\<forall>l\<in>set ls. LF \<notin> set l \<and> CR \<notin> set (butlast l)"
    by (auto simp: plain_line_def list_all_iff)
  from read_lines [OF this, of "[]"]
  have "length (text_lines (universal_newlines (unlines ls))) = length ls" by simp
  with 7 show ?thesis by (simp add: line_count_def)
qed

lemma selected_plain: "list_all plain_line ls \<Longrightarrow> list_all plain_line (selected pats ls)"
  by (auto simp: selected_def list_all_iff)

lemmas example_defs = env_ex_def env_no_zgrep_def self_ex_def type_a_lines_def world_ex_def
  world_fresh_def world_empty_def world_mixed_def args_ex_def args_no_ids_def
  id_with_line_feed_def world_lf_def six_ids_def args_six_def env_order_a_def env_order_b_def
  args_no_match_def env_no_match_def world_partial_def world_clash_def args_one_worker_def

lemmas char_defs = LF_def CR_def NUL_def seven_bit_def

section \<open>Filtering one file\<close>

text \<open>
  What \<open>grep_filter_file\<close> returns and leaves behind for a readable source file of plain
  lines when the matcher runs: the count is the number of selected lines, the output file
  holds them when there are some and is gone otherwise.
\<close>

lemma grep_filter_file_readable:
  assumes "temp_dir self = Some tmp" and "arena w = Some d" and "spawn_ok env"
    and "map_of (fhir w) input_file = Some (Lines ls)"
    and "pattern_file_name input_file \<noteq> output_file"
    and "list_all plain_line ls"
  shows "grep_filter_file env self input_file output_file patterns w =
    (length (matching_lines patterns ls),
     w\<lparr>arena := Some (if matching_lines patterns ls = []
         then AList.delete output_file (AList.delete (pattern_file_name input_file)
           (AList.update output_file [] (AList.update output_file []
             (AList.update (pattern_file_name input_file) (written patterns) d))))
         else AList.delete (pattern_file_name input_file)
           (AList.update output_file (matching_lines patterns ls) (AList.update output_file []
             (AList.update (pattern_file_name input_file) (written patterns) d))))\<rparr>)"
proof -
  have p: "printed env (written patterns) ls = matching_lines patterns ls"
    using assms(6) by (simp add: printed_plain matching_lines_def)
  have c: "line_count env (matching_lines patterns ls) = Some (length (matching_lines patterns ls))"
    using assms(6) by (simp add: line_count_plain selected_plain matching_lines_def)
  show ?thesis
    using assms(1-5) p c
    by (simp add: grep_filter_file_def zgrep_F_def Let_def update_conv' delete_conv'
        matching_lines_def unlink_if_exists_def)
qed

text \<open>
  C1, as the code has it. For a readable source file of plain lines (7-bit text without
  NUL, a carriage return only at the end of a line), a matcher that can be started and
  identifiers that contain no line feed, \<open>grep_filter_file\<close> returns the number of source
  lines that contain at least one identifier as a contiguous, case-sensitive run of
  characters. When there is such a line the output file holds exactly these lines,
  unchanged and in the order of the source; when there is none the output file is
  removed. The pattern file is gone afterwards. The identifiers go to the matcher through
  a pattern file with one identifier per line, so an identifier with a line feed in it is
  read as several patterns, and the statement fails without that restriction. The count
  is taken by reading the output file as text, so a carriage return inside a kept line
  counts as a line end, and a source the matcher takes as binary is selected from but not
  printed; the statement leaves both out. The output file \<open>filter_single_file\<close> passes
  never has the name of the pattern file.
\<close>

theorem grep_filter_file_keeps_matching_lines:
  "temp_dir self = Some tmp \<Longrightarrow> arena w = Some d \<Longrightarrow> spawn_ok env \<Longrightarrow>
   map_of (fhir w) input_file = Some (Lines ls) \<Longrightarrow>
   pattern_file_name input_file \<noteq> output_file \<Longrightarrow>
   \<forall>p\<in>set patterns. LF \<notin> set p \<Longrightarrow>
   \<forall>l\<in>set ls. plain_line l \<Longrightarrow>
   fst (grep_filter_file env self input_file output_file patterns w)
     = length (lines_containing patterns ls) \<and>
   arena_file (snd (grep_filter_file env self input_file output_file patterns w)) output_file
     = (if lines_containing patterns ls = [] then None
        else Some (lines_containing patterns ls)) \<and>
   arena_file (snd (grep_filter_file env self input_file output_file patterns w))
     (pattern_file_name input_file) = None"
  by (simp add: grep_filter_file_readable matching_lines_containing arena_file_def
      update_conv' delete_conv' list_all_iff)

text \<open>
  The example of C1: identifiers \<open>P001\<close> and \<open>P002\<close>, a source file of three lines; the
  output holds the first and the third line and the count is 2.
\<close>

theorem grep_filter_file_keeps_matching_lines_witness:
  \<open>fst (grep_filter_file env_ex self_ex ''TypeA.ndjson.gz'' ''TypeA.ndjson''
          [''P001'', ''P002''] world_ex) = 2 \<and>
    arena_file (snd (grep_filter_file env_ex self_ex ''TypeA.ndjson.gz'' ''TypeA.ndjson''
          [''P001'', ''P002''] world_ex)) ''TypeA.ndjson''
      = Some [''{"subject":"P001"}'', ''{"subject":"P002"}'']\<close>
proof -
  have h1: "temp_dir self_ex = Some ''simple_batch_k3x9''" and h2: "arena world_ex = Some []"
    and h3: "spawn_ok env_ex"
    and h4: "map_of (fhir world_ex) ''TypeA.ndjson.gz'' = Some (Lines type_a_lines)"
    and h5: "pattern_file_name ''TypeA.ndjson.gz'' \<noteq> ''TypeA.ndjson''"
    and h6: "\<forall>p\<in>set [''P001'', ''P002'']. LF \<notin> set p"
    and h7: "\<forall>l\<in>set type_a_lines. plain_line l"
    by (simp_all add: example_defs pattern_file_name_def plain_line_def char_defs)
  have kept: \<open>lines_containing [''P001'', ''P002''] type_a_lines
      = [''{"subject":"P001"}'', ''{"subject":"P002"}'']\<close>
    by (simp add: lines_containing_def type_a_lines_def contains_sublist [symmetric])
  from grep_filter_file_keeps_matching_lines [OF h1 h2 h3 h4 h5 h6 h7] show ?thesis
    by (simp add: kept)
qed

text \<open>
  C1 as stated fails for an identifier with a line feed in it: for the one identifier
  \<open>A\nB\<close> the pattern file has the two lines \<open>A\<close> and \<open>B\<close>, and a source line that
  contains \<open>A\<close> is kept and counted although it does not contain the identifier.
\<close>

theorem C1_counterexample:
  \<open>fst (grep_filter_file env_ex self_ex ''TypeA.ndjson.gz'' ''TypeA.ndjson''
          [id_with_line_feed] world_lf) = 1 \<and>
    arena_file (snd (grep_filter_file env_ex self_ex ''TypeA.ndjson.gz'' ''TypeA.ndjson''
          [id_with_line_feed] world_lf)) ''TypeA.ndjson'' = Some [''{"subject":"A"}''] \<and>
    \<not> sublist id_with_line_feed ''{"subject":"A"}''\<close>
  by (simp add: grep_filter_file_def example_defs pattern_file_name_def stem_def
      written_def unlines_def text_lines_def zgrep_F_def selected_def printed_def grep_text_def
      line_count_def arena_file_def char_defs contains_sublist [symmetric])

text \<open>
  The two kinds of source the statement leaves out. A carriage return inside a kept line
  ends a line when Python counts the output file, so one kept line counts 2; and from a
  source the matcher takes as binary (here a NUL character) it prints no line although it
  selects one, so the count is 0 and the empty output file stays.
\<close>

lemma lone_carriage_return_counts_twice:
  "grep_filter_file env_ex self_ex ''TypeA.ndjson.gz'' ''TypeA.ndjson'' [''P001'']
     (world_ex\<lparr>fhir := [(''TypeA.ndjson.gz'', Lines [''a P001 x'' @ [CR] @ ''tail''])]\<rparr>)
   = (2, world_ex\<lparr>fhir := [(''TypeA.ndjson.gz'', Lines [''a P001 x'' @ [CR] @ ''tail''])],
                   arena := Some [(''TypeA.ndjson'', [''a P001 x'' @ [CR] @ ''tail''])]\<rparr>)"
  by code_simp

lemma binary_source_prints_nothing:
  "grep_filter_file env_ex self_ex ''TypeA.ndjson.gz'' ''TypeA.ndjson'' [''P001'']
     (world_ex\<lparr>fhir := [(''TypeA.ndjson.gz'', Lines [''a P001 x'' @ [NUL]])]\<rparr>)
   = (0, world_ex\<lparr>fhir := [(''TypeA.ndjson.gz'', Lines [''a P001 x'' @ [NUL]])],
                   arena := Some [(''TypeA.ndjson'', [])]\<rparr>)"
  by code_simp

text \<open>
  C2, as the code has it. For a source file from which the matcher selects no line,
  \<open>filter_single_file\<close> reports the count 0 and leaves no output file behind; the pair it
  returns still carries the path of the output file, which names no file any more.
\<close>

theorem filter_single_file_no_match:
  "temp_dir self = Some tmp \<Longrightarrow> map_of (fhir w) fhir_file = Some (Lines ls) \<Longrightarrow>
   matching_lines patterns ls = [] \<Longrightarrow>
   fst (filter_single_file env self fhir_file patterns w)
     = Inr (Some (replace fhir_file ''.gz'' []), 0) \<and>
   arena_file (snd (filter_single_file env self fhir_file patterns w))
     (replace fhir_file ''.gz'' []) = None"
  by (auto simp: filter_single_file_def grep_filter_file_def on_exception_def
      unlink_if_exists_def logmsg_def zgrep_F_def arena_file_def matching_lines_def
      Let_def update_conv' delete_conv'
      split: option.splits prod.splits if_splits)

theorem filter_single_file_no_match_witness:
  "matching_lines [''P777''] type_a_lines = [] \<and>
   fst (filter_single_file env_ex self_ex ''TypeA.ndjson.gz'' [''P777''] world_ex)
     = Inr (Some (replace ''TypeA.ndjson.gz'' ''.gz'' []), 0) \<and>
   arena_file (snd (filter_single_file env_ex self_ex ''TypeA.ndjson.gz'' [''P777''] world_ex))
     (replace ''TypeA.ndjson.gz'' ''.gz'' []) = None"
proof -
  have h1: "temp_dir self_ex = Some ''simple_batch_k3x9''"
    and h2: "map_of (fhir world_ex) ''TypeA.ndjson.gz'' = Some (Lines type_a_lines)"
    and h3: "matching_lines [''P777''] type_a_lines = []"
    by (simp_all add: example_defs matching_lines_def written_def unlines_def text_lines_def
        selected_def LF_def)
  from filter_single_file_no_match [OF h1 h2 h3] h3 show ?thesis by simp
qed

text \<open>
  C2 as stated fails in its last part: no line of the source contains \<open>P777\<close>, and the
  task returns the output path \<open>TypeA.ndjson\<close> beside the count 0, not \<open>None\<close>.
\<close>

theorem C2_counterexample:
  "lines_containing [''P777''] type_a_lines = [] \<and>
   fst (filter_single_file env_ex self_ex ''TypeA.ndjson.gz'' [''P777''] world_ex)
     = Inr (Some ''TypeA.ndjson'', 0)"
  by (simp add: filter_single_file_def grep_filter_file_def example_defs pattern_file_name_def
      stem_def written_def unlines_def text_lines_def zgrep_F_def selected_def printed_def
      grep_text_def char_defs replace_def unlink_if_exists_def logmsg_def lines_containing_def
      contains_sublist [symmetric])

text \<open>
  Whenever the matcher ran, with whatever exit status, the pattern file is gone after
  \<open>grep_filter_file\<close>.
\<close>

lemma pattern_file_removed_when_matcher_ran:
  "temp_dir self = Some tmp \<Longrightarrow> arena w = Some d \<Longrightarrow> spawn_ok env \<Longrightarrow>
   map_of (fhir w) input_file = Some src \<Longrightarrow>
   arena_file (snd (grep_filter_file env self input_file output_file patterns w))
     (pattern_file_name input_file) = None"
  by (auto simp: grep_filter_file_def on_exception_def unlink_if_exists_def logmsg_def
      zgrep_F_def arena_file_def Let_def update_conv' delete_conv'
      split: option.splits prod.splits source.splits if_splits)

text \<open>
  C6 at a task whose matcher cannot be started: \<open>subprocess.run\<close> raises, the handler
  removes the output file and returns 0, and the pattern file stays in the temporary
  directory. The pattern file is unlinked only after \<open>subprocess.run\<close> has returned.
\<close>

theorem pattern_file_left_behind:
  "grep_filter_file env_no_zgrep self_ex ''TypeA.ndjson.gz'' ''TypeA.ndjson''
     [''P001'', ''P002''] world_ex
   = (0, world_ex\<lparr>arena := Some [(''patterns_TypeA.ndjson.txt'', [''P001'', ''P002''])],
                  events := [(ERROR, ErrorFiltering ''TypeA.ndjson.gz'')]\<rparr>)"
  by (simp add: grep_filter_file_def example_defs pattern_file_name_def stem_def
      written_def unlines_def text_lines_def LF_def on_exception_def
      unlink_if_exists_def logmsg_def)

section \<open>The record-type label\<close>

text \<open>
  Every base name that starts with \<open>MimicMedication\<close> gets the label \<open>Medication\<close>: the
  entry comes before the four entries with a longer pattern, which therefore never decide.
\<close>

lemma find_pattern_medication:
  "startswith base_name ''MimicMedication'' \<Longrightarrow>
   find_pattern type_mapping base_name = Some ''Medication''"
  by (auto simp: type_mapping_def startswith_prefix prefix_def)

text \<open>
  C9 at the file name \<open>MimicMedicationAdministration.ndjson.gz\<close>: the table lists
  \<open>MedicationAdministration\<close> for its prefix, and the function returns \<open>Medication\<close>.
\<close>

theorem longer_prefix_shadowed:
  "map_filename_to_resource_type ''MimicMedicationAdministration.ndjson.gz'' = ''Medication''"
  by (simp add: map_filename_to_resource_type_def type_mapping_def replace_def)

section \<open>What every step keeps\<close>

text \<open>
  No step of a run removes the temporary directory, changes the FHIR directory, or logs
  that no input file was found, except \<open>filter_all_files\<close> when the directory scan
  finds nothing.
\<close>

lemma logs_without_refl: "logs_without m w w"
  by (simp add: logs_without_def new_events_def)

lemma logs_without_trans:
  "logs_without m w w' \<Longrightarrow> logs_without m w' w'' \<Longrightarrow> logs_without m w w''"
  by (force simp: logs_without_def new_events_def prefix_def)

lemma logs_without_logmsg:
  "logs_without m w w' \<Longrightarrow> m' \<noteq> m \<Longrightarrow> logs_without m w (logmsg lvl m' w')"
  by (force simp: logs_without_def new_events_def logmsg_def prefix_def)

lemma grep_filter_file_frame:
  "fhir (snd (grep_filter_file env self input_file output_file patterns w)) = fhir w \<and>
   outdir (snd (grep_filter_file env self input_file output_file patterns w)) = outdir w \<and>
   (arena w \<noteq> None \<longrightarrow>
      arena (snd (grep_filter_file env self input_file output_file patterns w)) \<noteq> None)"
  by (auto simp: grep_filter_file_def on_exception_def unlink_if_exists_def logmsg_def Let_def
      split: option.splits prod.splits)

lemma grep_filter_file_logs:
  "m \<noteq> ErrorFiltering input_file \<Longrightarrow> m \<noteq> FileNotFound input_file \<Longrightarrow>
   m \<noteq> GrepFailed input_file \<Longrightarrow>
   logs_without m w (snd (grep_filter_file env self input_file output_file patterns w))"
  by (auto simp: grep_filter_file_def on_exception_def unlink_if_exists_def logmsg_def Let_def
      logs_without_def new_events_def
      split: option.splits prod.splits)


lemma logmsg_frame [simp]:
  "fhir (logmsg lvl m w) = fhir w" "arena (logmsg lvl m w) = arena w"
  "outdir (logmsg lvl m w) = outdir w"
  by (simp_all add: logmsg_def)

lemma filter_single_file_frame:
  "fhir (snd (filter_single_file env self fhir_file patterns w)) = fhir w \<and>
   outdir (snd (filter_single_file env self fhir_file patterns w)) = outdir w \<and>
   (arena w \<noteq> None \<longrightarrow>
      arena (snd (filter_single_file env self fhir_file patterns w)) \<noteq> None)"
  using grep_filter_file_frame
    [of env self fhir_file "replace fhir_file ''.gz'' []" patterns
        "logmsg INFO (Processing fhir_file) w"]
  by (simp add: filter_single_file_def Let_def split_def split: option.splits)

lemma filter_single_file_logs:
  "logs_without NoNdjsonFiles w (snd (filter_single_file env self fhir_file patterns w))"
proof -
  let ?w1 = "logmsg INFO (Processing fhir_file) w"
  have 1: "logs_without NoNdjsonFiles w ?w1"
    by (simp add: logs_without_logmsg logs_without_refl)
  have 2: "logs_without NoNdjsonFiles ?w1
     (snd (grep_filter_file env self fhir_file (replace fhir_file ''.gz'' []) patterns ?w1))"
    by (simp add: grep_filter_file_logs)
  note 3 = logs_without_trans [OF 1 2]
  show ?thesis
    by (simp add: filter_single_file_def Let_def split_def 1 3 logs_without_logmsg
        logs_without_refl split: option.splits)
qed

lemma run_pool_frame:
  "fhir (snd (run_pool env self patterns files tot w)) = fhir w \<and>
   outdir (snd (run_pool env self patterns files tot w)) = outdir w \<and>
   (arena w \<noteq> None \<longrightarrow> arena (snd (run_pool env self patterns files tot w)) \<noteq> None)"
proof (induction files arbitrary: tot w)
  case Nil
  show ?case by simp
next
  case (Cons f files)
  obtain r w' where r: "filter_single_file env self f patterns w = (r, w')"
    by (cases "filter_single_file env self f patterns w")
  with filter_single_file_frame [of env self f patterns w]
  have fr: "fhir w' = fhir w" "outdir w' = outdir w" "arena w \<noteq> None \<longrightarrow> arena w' \<noteq> None"
    by simp_all
  show ?case
  proof (cases r)
    case (Inl e)
    with r fr Cons.IH [of tot "logmsg ERROR (ErrorProcessing f) w'"] show ?thesis by simp
  next
    case (Inr p)
    with r fr Cons.IH [of "tot + snd p" w'] show ?thesis by (simp add: split_def)
  qed
qed

lemma run_pool_logs:
  "logs_without NoNdjsonFiles w (snd (run_pool env self patterns files tot w))"
proof (induction files arbitrary: tot w)
  case Nil
  show ?case by (simp add: logs_without_refl)
next
  case (Cons f files)
  obtain r w' where r: "filter_single_file env self f patterns w = (r, w')"
    by (cases "filter_single_file env self f patterns w")
  with filter_single_file_logs [of w env self f patterns]
  have l: "logs_without NoNdjsonFiles w w'" by simp
  show ?case
  proof (cases r)
    case (Inl e)
    have "logs_without NoNdjsonFiles w (logmsg ERROR (ErrorProcessing f) w')"
      using l by (simp add: logs_without_logmsg)
    from logs_without_trans [OF this Cons.IH [where tot = tot and w = "logmsg ERROR (ErrorProcessing f) w'"]]
    show ?thesis using r Inl by simp
  next
    case (Inr p)
    from logs_without_trans [OF l Cons.IH [where tot = "tot + snd p" and w = w']]
    show ?thesis using r Inr by (simp add: split_def)
  qed
qed


lemma filter_all_files_no_files:
  "glob (fhir w) ''.ndjson.gz'' = [] \<Longrightarrow> temp_dir self = None \<Longrightarrow>
   filter_all_files env self w =
     (Inr 0, self\<lparr>temp_dir := Some (''simple_batch_'' @ tmp_suffix env)\<rparr>,
      logmsg ERROR NoNdjsonFiles
        (logmsg INFO (CreatedTemp (''simple_batch_'' @ tmp_suffix env)) (w\<lparr>arena := Some []\<rparr>)))"
  by (simp add: filter_all_files_def create_temp_directory_def mkdtemp_def Let_def)

lemma filter_all_files_frame:
  "outdir (snd (snd (filter_all_files env self w))) = outdir w \<and>
   (temp_dir self = None \<or> arena w \<noteq> None \<longrightarrow>
      arena (snd (snd (filter_all_files env self w))) \<noteq> None)"
proof -
  obtain s1 w1 where sw:
    "(if temp_dir self = None then create_temp_directory env self w else (self, w)) = (s1, w1)"
    by (cases "if temp_dir self = None then create_temp_directory env self w else (self, w)")
  then have a: "temp_dir self = None \<or> arena w \<noteq> None \<longrightarrow> arena w1 \<noteq> None"
    and o: "outdir w1 = outdir w"
    by (auto simp: create_temp_directory_def Let_def split: if_splits)
  let ?w2 = "logmsg INFO (FoundFiles (length (glob (fhir w1) ''.ndjson.gz'')) (max_workers s1)) w1"
  from run_pool_frame [of env s1 "set_iter env (patient_ids s1)"
      "completion env (glob (fhir w1) ''.ndjson.gz'')" 0 ?w2] a o
  show ?thesis
    unfolding filter_all_files_def sw
    by (auto simp: Let_def split_def)
qed

lemma filter_all_files_logs:
  assumes "glob (fhir w) ''.ndjson.gz'' \<noteq> []"
  shows "logs_without NoNdjsonFiles w (snd (snd (filter_all_files env self w)))"
proof -
  let ?sw = "if temp_dir self = None then create_temp_directory env self w else (self, w)"
  have f: "fhir (snd ?sw) = fhir w" by (simp add: create_temp_directory_def Let_def)
  have 1: "logs_without NoNdjsonFiles w (snd ?sw)"
    by (simp add: create_temp_directory_def Let_def logs_without_def new_events_def logmsg_def)
  let ?w2 = "logmsg INFO (FoundFiles (length (glob (fhir w) ''.ndjson.gz''))
                (max_workers (fst ?sw))) (snd ?sw)"
  have 2: "logs_without NoNdjsonFiles w ?w2"
    using 1 by (simp add: logs_without_logmsg)
  note 3 = logs_without_trans [OF 2 run_pool_logs [of ?w2 env "fst ?sw"
      "set_iter env (patient_ids (fst ?sw))"
      "completion env (glob (fhir w) ''.ndjson.gz'')" 0]]
  from assms f 2 3 show ?thesis
    by (simp add: filter_all_files_def Let_def split_def)
qed

lemma create_summary_frame:
  "outdir (snd (create_summary env self tot w)) = outdir w \<and>
   (arena w \<noteq> None \<longrightarrow> arena (snd (create_summary env self tot w)) \<noteq> None)"
  by (auto simp: create_summary_def Let_def split: option.splits)

lemma create_summary_logs:
  "logs_without NoNdjsonFiles w (snd (create_summary env self tot w))"
  by (auto simp: create_summary_def Let_def logs_without_def new_events_def logmsg_def
      split: option.splits)

lemma copy_to_output_frame:
  "arena (snd (copy_to_output env output_path w)) = arena w"
  by (simp add: copy_to_output_def Let_def split: option.splits)

lemma copy_to_output_logs:
  "logs_without NoNdjsonFiles w (snd (copy_to_output env output_path w))"
  by (simp add: copy_to_output_def Let_def logs_without_def new_events_def logmsg_def
      split: option.splits)

lemma report_results_frame:
  "arena w \<noteq> None \<Longrightarrow> arena (snd (report_results env a inst tot w)) \<noteq> None"
  using create_summary_frame [of env inst tot w]
  by (auto simp: report_results_def Let_def copy_to_output_frame
      split: prod.splits option.splits)

lemma report_results_logs:
  "logs_without NoNdjsonFiles w (snd (report_results env a inst tot w))"
proof -
  obtain r w' where c: "create_summary env inst tot w = (r, w')"
    by (cases "create_summary env inst tot w")
  with create_summary_logs [of w env inst tot] have 1: "logs_without NoNdjsonFiles w w'"
    by simp
  let ?w5 = "logmsg INFO (FilteredTotal tot) (logmsg INFO Completed w')"
  have 2: "logs_without NoNdjsonFiles w ?w5"
    using 1 by (simp add: logs_without_logmsg)
  have 3: "logs_without NoNdjsonFiles w (snd (copy_to_output env p ?w5))" for p
    using logs_without_trans [OF 2 copy_to_output_logs] .
  show ?thesis
    using c 1 2 3
    by (auto simp: report_results_def Let_def logs_without_logmsg split: option.splits)
qed

lemma try_block_arena:
  "temp_dir inst = None \<or> arena w \<noteq> None \<Longrightarrow>
   arena (snd (snd (try_block env a inst w))) \<noteq> None"
proof -
  assume h: "temp_dir inst = None \<or> arena w \<noteq> None"
  obtain r i w3 where f: "filter_all_files env inst w = (r, i, w3)"
    by (cases "filter_all_files env inst w") auto
  with filter_all_files_frame [of env inst w] h have ar: "arena w3 \<noteq> None" by auto
  show ?thesis
    using f ar report_results_frame [OF ar, of env a i]
    by (auto simp: try_block_def split_def split: sum.splits)
qed

lemma try_block_logs:
  assumes "glob (fhir w) ''.ndjson.gz'' \<noteq> []"
  shows "logs_without NoNdjsonFiles w (snd (snd (try_block env a inst w)))"
proof -
  obtain r i w3 where f: "filter_all_files env inst w = (r, i, w3)"
    by (cases "filter_all_files env inst w") auto
  with filter_all_files_logs [OF assms, of env inst]
  have 1: "logs_without NoNdjsonFiles w w3" by simp
  have 2: "logs_without NoNdjsonFiles w (snd (report_results env a i tot w3))" for tot
    using logs_without_trans [OF 1 report_results_logs] .
  show ?thesis
    using f 1 2
    by (auto simp: try_block_def split_def logs_without_logmsg split: sum.splits)
qed

lemma report_results_keep_temp:
  "report_results env (a\<lparr>keep_temp := b\<rparr>) inst tot w = report_results env a inst tot w"
  by (simp add: report_results_def Let_def split: prod.splits option.splits)

lemma try_block_keep_temp:
  "try_block env (a\<lparr>keep_temp := b\<rparr>) inst w = try_block env a inst w"
  by (simp add: try_block_def report_results_keep_temp split: prod.splits sum.splits)

lemma main_keep_temp: "main env (a\<lparr>keep_temp := b\<rparr>) w = main env a w"
  by (simp add: main_def try_block_keep_temp Let_def split: id_source.splits prod.splits)

lemma init_frame [simp]:
  "temp_dir (fst (init env ids n w)) = None"
  "arena (snd (init env ids n w)) = arena w"
  "fhir (snd (init env ids n w)) = fhir w"
  "outdir (snd (init env ids n w)) = outdir w"
  by (simp_all add: init_def Let_def)

lemma main_arena:
  assumes "ids_of a \<noteq> []"
  shows "arena (snd (main env a w)) \<noteq> None"
  using assms try_block_arena [of "fst (init env (ids_of a) (threads a) w1)" _ env a for w1]
  by (cases "id_arg a") (simp_all add: main_def ids_of_def Let_def split_def)


lemma main_logs:
  assumes "ids_of a \<noteq> []" and "glob (fhir w) ''.ndjson.gz'' \<noteq> []"
  shows "logs_without NoNdjsonFiles w (snd (main env a w))"
proof -
  let ?w0 = "case id_arg a of
       PatientList content \<Rightarrow> logmsg INFO (ReadPatientIds (length (read_patient_list content))) w
     | Patients ps \<Rightarrow> w"
  let ?w1 = "logmsg INFO (Starting (length (ids_of a))) ?w0"
  let ?i = "init env (ids_of a) (threads a) ?w1"
  let ?t = "try_block env a (fst ?i) (snd ?i)"
  have m: "snd (main env a w) = logmsg INFO (Preserved (temp_dir (fst (snd ?t)))) (snd (snd ?t))"
    using assms(1)
    by (cases "id_arg a") (simp_all add: main_def ids_of_def Let_def split_def)
  have 0: "logs_without NoNdjsonFiles w ?w0"
    by (cases "id_arg a") (simp_all add: logs_without_logmsg logs_without_refl)
  have f0: "fhir ?w0 = fhir w" by (cases "id_arg a") simp_all
  have 2: "logs_without NoNdjsonFiles w (snd ?i)"
    using 0 by (simp add: init_def Let_def logs_without_logmsg)
  have "glob (fhir (snd ?i)) ''.ndjson.gz'' \<noteq> []" using assms(2) f0 by simp
  from logs_without_trans [OF 2 try_block_logs [OF this]]
  show ?thesis unfolding m by (simp add: logs_without_logmsg)
qed

section \<open>The tasks of the pool\<close>

lemma replace_from_no_dot: "CHR ''.'' \<notin> set s \<Longrightarrow> replace_from ''.gz'' [] s = s"
  by (induction s) auto

lemma replace_from_length: "length (replace_from old [] s) \<le> length s"
  by (induction old "[] :: string" s rule: replace_from.induct) (auto intro: le_SucI order_trans)

lemma replace_from_suffix:
  "CHR ''.'' \<notin> set b \<Longrightarrow> suffix (drop 2 b) (replace_from ''.gz'' [] (a @ b))"
proof (induction "length a" arbitrary: a rule: less_induct)
  case less
  show ?case
  proof (cases a)
    case Nil
    with less.prems show ?thesis by (simp add: replace_from_no_dot suffix_drop)
  next
    case (Cons c a1)
    show ?thesis
    proof (cases "startswith (c # a1 @ b) ''.gz''")
      case False
      from less.hyps [of a1] less.prems Cons have "suffix (drop 2 b) (replace_from ''.gz'' [] (a1 @ b))"
        by simp
      with False Cons show ?thesis by (auto simp: suffix_ConsI)
    next
      case True
      then have r: "replace_from ''.gz'' [] (a @ b) = replace_from ''.gz'' [] (drop 2 (a1 @ b))"
        using Cons by (simp add: numeral_2_eq_2)
      show ?thesis
      proof (cases "2 \<le> length a1")
        case True
        then have "drop 2 (a1 @ b) = drop 2 a1 @ b" by simp
        moreover from less.hyps [of "drop 2 a1"] less.prems Cons
        have "suffix (drop 2 b) (replace_from ''.gz'' [] (drop 2 a1 @ b))" by simp
        ultimately show ?thesis using r by simp
      next
        case False
        then have d: "drop 2 (a1 @ b) = drop (2 - length a1) b" by simp
        have "CHR ''.'' \<notin> set (drop (2 - length a1) b)"
          using less.prems by (meson in_set_dropD)
        then have "replace_from ''.gz'' [] (drop (2 - length a1) b) = drop (2 - length a1) b"
          by (rule replace_from_no_dot)
        moreover have "suffix (drop 2 b) (drop (2 - length a1) b)"
        proof -
          have "drop 2 b = drop (length a1) (drop (2 - length a1) b)"
            using False by simp
          then show ?thesis by (metis suffix_drop)
        qed
        ultimately show ?thesis using r d by simp
      qed
    qed
  qed
qed


text \<open>
  The pattern file of a task never has the name of its output file: the name of the
  output file is at most as long as the name of the source, and ends with what follows
  the last dot of the source name (less \<open>gz\<close>), while the pattern file ends with
  \<open>.txt\<close> and is thirteen characters longer than the stem.
\<close>

lemma pattern_file_is_not_output:
  "pattern_file_name f \<noteq> replace f ''.gz'' []"
proof
  assume eq: "pattern_file_name f = replace f ''.gz'' []"
  let ?out = "replace_from ''.gz'' [] f"
  have out: "''patterns_'' @ stem f @ ''.txt'' = ?out"
    using eq by (simp add: pattern_file_name_def replace_def)
  have len: "length ?out \<le> length f" by (rule replace_from_length)
  let ?ext = "takeWhile (\<lambda>c. c \<noteq> CHR ''.'') (rev f)"
  let ?b = "rev ?ext"
  let ?a = "rev (dropWhile (\<lambda>c. c \<noteq> CHR ''.'') (rev f))"
  have "rev (?a @ ?b) = rev f" by simp
  then have f: "f = ?a @ ?b" by (simp only: rev_is_rev_conv)
  have nodot: "CHR ''.'' \<notin> set ?b"
    by (auto dest: set_takeWhileD)
  from out have "length (''patterns_'' @ stem f @ ''.txt'') = length ?out" by simp
  then have l: "length ?out = 13 + length (stem f)" by simp
  have sfx: "suffix (drop 2 ?b) ?out"
    using replace_from_suffix [OF nodot, of ?a] f by simp
  have tx: "suffix ''.txt'' ?out"
    by (rule suffixI [of _ "''patterns_'' @ stem f"]) (simp add: out [symmetric])
  show False
  proof (cases "CHR ''.'' \<in> set f \<and> 0 < length f - length ?ext - 1 \<and> ?ext \<noteq> []")
    case False
    then have "stem f = f" by (auto simp: stem_def Let_def)
    with l len show False by simp
  next
    case True
    then have st: "stem f = take (length f - length ?ext - 1) f"
      by (simp add: stem_def Let_def)
    have "length ?ext \<le> length f"
      by (metis length_rev length_takeWhile_le)
    with True st l len have "12 \<le> length ?ext" by simp
    then have "length ''.txt'' \<le> length (drop 2 ?b)" by simp
    with tx sfx have "suffix ''.txt'' (drop 2 ?b)"
      by (rule suffix_length_suffix)
    then have "CHR ''.'' \<in> set (drop 2 ?b)"
      by (auto simp: suffix_def)
    with nodot show False by (meson in_set_dropD)
  qed
qed

text \<open>
  A task touches two files of the temporary directory only, its pattern file and its
  output file; so what a task left in its output file stays through every other task of
  the pool that has other names for its two files.
\<close>

lemma filter_single_file_other_files:
  "name \<noteq> pattern_file_name f \<Longrightarrow> name \<noteq> replace f ''.gz'' [] \<Longrightarrow>
   arena_file (snd (filter_single_file env self f ps w)) name = arena_file w name"
  by (auto simp: filter_single_file_def grep_filter_file_def on_exception_def
      unlink_if_exists_def arena_file_def Let_def update_conv' delete_conv' split_def
      split: option.splits prod.splits if_splits)

lemma run_pool_other_files:
  "\<forall>f\<in>set files. name \<noteq> pattern_file_name f \<and> name \<noteq> replace f ''.gz'' [] \<Longrightarrow>
   arena_file (snd (run_pool env self ps files tot w)) name = arena_file w name"
proof (induction files arbitrary: tot w)
  case Nil
  show ?case by simp
next
  case (Cons f files)
  obtain r w' where r: "filter_single_file env self f ps w = (r, w')"
    by (cases "filter_single_file env self f ps w")
  from Cons.prems have n: "name \<noteq> pattern_file_name f" "name \<noteq> replace f ''.gz'' []"
    and rest: "\<forall>f\<in>set files. name \<noteq> pattern_file_name f \<and> name \<noteq> replace f ''.gz'' []"
    by simp_all
  from filter_single_file_other_files [OF n, of env self ps w] r
  have k: "arena_file w' name = arena_file w name" by simp
  show ?case
  proof (cases r)
    case (Inl e)
    with r k Cons.IH [OF rest, where tot = tot and w = "logmsg ERROR (ErrorProcessing f) w'"]
    show ?thesis by (simp add: arena_file_def)
  next
    case (Inr p)
    with r k Cons.IH [OF rest, where tot = "tot + snd p" and w = w']
    show ?thesis by (simp add: split_def)
  qed
qed

text \<open>
  C5 at two source files whose names differ in a \<open>.gz\<close> inside the name. The output
  name is \<open>fhir_file.name.replace(".gz", "")\<close>, which removes every \<open>.gz\<close> of the name
  and not only the extension, so \<open>TypeA.ndjson.gz\<close> and \<open>TypeA.gz.ndjson.gz\<close> share the
  output file \<open>TypeA.ndjson\<close>. The first file is readable and its task keeps two lines:
  it returns the count 2 and leaves them in \<open>TypeA.ndjson\<close>. The second file cannot be
  read: its task opens the same output file, the matcher fails, and the task removes the
  output file. At the end of the run with one worker the temporary directory holds the
  summary only; the log reports two filtered resources and the summary lists none. The
  result of the readable file is lost through the failure of the other file.
\<close>

theorem unreadable_source_removes_sibling_artifact:
  \<open>fst (filter_single_file env_ex self_ex ''TypeA.ndjson.gz'' [''P001'', ''P002'']
          (world_clash\<lparr>arena := Some []\<rparr>)) = Inr (Some ''TypeA.ndjson'', 2) \<and>
    arena (snd (filter_single_file env_ex self_ex ''TypeA.ndjson.gz'' [''P001'', ''P002'']
          (world_clash\<lparr>arena := Some []\<rparr>)))
      = Some [(''TypeA.ndjson'', [''{"subject":"P001"}'', ''{"subject":"P002"}''])] \<and>
    fst (filter_single_file env_ex self_ex ''TypeA.gz.ndjson.gz'' [''P001'', ''P002'']
          (snd (filter_single_file env_ex self_ex ''TypeA.ndjson.gz'' [''P001'', ''P002'']
             (world_clash\<lparr>arena := Some []\<rparr>)))) = Inr (Some ''TypeA.ndjson'', 0) \<and>
    arena (snd (filter_single_file env_ex self_ex ''TypeA.gz.ndjson.gz'' [''P001'', ''P002'']
          (snd (filter_single_file env_ex self_ex ''TypeA.ndjson.gz'' [''P001'', ''P002'']
             (world_clash\<lparr>arena := Some []\<rparr>))))) = Some [] \<and>
    main env_ex args_one_worker world_clash
      = (None,
         world_clash\<lparr>arena := Some [(''SUMMARY.txt'',
              [''SIMPLE BATCH FILTERING SUMMARY'',
               ''========================================'',
               [],
               ''Target patients: 2'',
               ''Patient IDs: P001, P002'',
               [],
               ''--------------------------------------------------'',
               ''TOTAL                                           0 resources''])],
           events := [(INFO, Starting 2), (INFO, Initialized 2 1),
             (INFO, CreatedTemp ''simple_batch_k3x9''), (INFO, FoundFiles 2 1),
             (INFO, Processing ''TypeA.ndjson.gz''),
             (INFO, RecordsFiltered ''TypeA.ndjson.gz'' 2),
             (INFO, Processing ''TypeA.gz.ndjson.gz''),
             (WARNING, GrepFailed ''TypeA.gz.ndjson.gz''),
             (INFO, NoMatchesFound ''TypeA.gz.ndjson.gz''),
             (INFO, SummaryWritten), (INFO, Completed), (INFO, FilteredTotal 2),
             (INFO, FilesIn (Some ''simple_batch_k3x9'')),
             (INFO, Preserved (Some ''simple_batch_k3x9''))]\<rparr>)\<close>
  by code_simp

section \<open>The run\<close>


text \<open>
  C8. When the identifier list is empty, \<open>main\<close> logs the error and returns: the world is
  the one it started in except for the log, so no temporary directory was created, no
  task ran and no file was written.
\<close>

theorem main_without_ids:
  "ids_of a = [] \<Longrightarrow>
   main env a w =
     (None, w\<lparr>events := events w
        @ (case id_arg a of PatientList content \<Rightarrow> [(INFO, ReadPatientIds 0)] | Patients ps \<Rightarrow> [])
        @ [(ERROR, NoPatientIds)]\<rparr>) \<and>
   arena (snd (main env a w)) = arena w \<and>
   outdir (snd (main env a w)) = outdir w"
  by (auto simp: main_def ids_of_def logmsg_def split: id_source.splits)

theorem main_without_ids_witness:
  "ids_of args_no_ids = [] \<and>
   main env_ex args_no_ids world_fresh =
     (None, world_fresh\<lparr>events := [(INFO, ReadPatientIds 0), (ERROR, NoPatientIds)]\<rparr>) \<and>
   arena (snd (main env_ex args_no_ids world_fresh)) = None \<and>
   outdir (snd (main env_ex args_no_ids world_fresh)) = None"
proof -
  have h: "ids_of args_no_ids = []"
    by (simp add: ids_of_def example_defs read_patient_list_def unlines_def text_lines_def
        LF_def CR_def strip_def isspace_def keep_patient_id_def)
  from main_without_ids [OF h, of env_ex world_fresh] h show ?thesis
    by (simp add: example_defs)
qed

text \<open>
  C4. With identifiers given and no \<open>*.ndjson.gz\<close> file in the FHIR directory, \<open>main\<close>
  creates the temporary directory, logs the error that no input file was found, and ends:
  no task ran (no file is in the temporary directory, the log has no entry of a task), no
  summary was written, and no exception leaves \<open>main\<close>. The warning of a run without
  matches follows the error in the log. A run that found input files never logs that
  error, whatever its tasks do, so the two runs are told apart by it.
\<close>

theorem no_input_files_reported:
  "ids_of a \<noteq> [] \<Longrightarrow>
   (glob (fhir w) ''.ndjson.gz'' = [] \<longrightarrow>
      fst (main env a w) = None \<and>
      arena (snd (main env a w)) = Some [] \<and>
      outdir (snd (main env a w)) = outdir w \<and>
      new_events w (snd (main env a w)) =
        (case id_arg a of PatientList content \<Rightarrow> [(INFO, ReadPatientIds (length (ids_of a)))]
         | Patients ps \<Rightarrow> [])
        @ [(INFO, Starting (length (ids_of a))),
           (INFO, Initialized (length (ids_of a))
              (max_workers (fst (init env (ids_of a) (threads a) w)))),
           (INFO, CreatedTemp (''simple_batch_'' @ tmp_suffix env)),
           (ERROR, NoNdjsonFiles),
           (WARNING, NoResourcesFound),
           (INFO, Preserved (Some (''simple_batch_'' @ tmp_suffix env)))]) \<and>
   (glob (fhir w) ''.ndjson.gz'' \<noteq> [] \<longrightarrow>
      NoNdjsonFiles \<notin> snd ` set (new_events w (snd (main env a w))))"
proof (intro conjI impI)
  assume ids: "ids_of a \<noteq> []" and g: "glob (fhir w) ''.ndjson.gz'' \<noteq> []"
  from main_logs [OF ids g]
  show "NoNdjsonFiles \<notin> snd ` set (new_events w (snd (main env a w)))"
    by (simp add: logs_without_def)
next
  assume ids: "ids_of a \<noteq> []" and g: "glob (fhir w) ''.ndjson.gz'' = []"
  have t: "try_block env a inst w' =
      (None, inst\<lparr>temp_dir := Some (''simple_batch_'' @ tmp_suffix env)\<rparr>,
       logmsg WARNING NoResourcesFound (logmsg ERROR NoNdjsonFiles
         (logmsg INFO (CreatedTemp (''simple_batch_'' @ tmp_suffix env)) (w'\<lparr>arena := Some []\<rparr>))))"
    if "fhir w' = fhir w" "temp_dir inst = None" for inst w'
    using that g by (simp add: try_block_def filter_all_files_no_files)
  have m: "main env a w =
    (None, w\<lparr>arena := Some [], events := events w @
        (case id_arg a of PatientList content \<Rightarrow> [(INFO, ReadPatientIds (length (ids_of a)))]
         | Patients ps \<Rightarrow> [])
        @ [(INFO, Starting (length (ids_of a))),
           (INFO, Initialized (length (ids_of a))
              (max_workers (fst (init env (ids_of a) (threads a) w)))),
           (INFO, CreatedTemp (''simple_batch_'' @ tmp_suffix env)),
           (ERROR, NoNdjsonFiles),
           (WARNING, NoResourcesFound),
           (INFO, Preserved (Some (''simple_batch_'' @ tmp_suffix env)))]\<rparr>)"
    using ids
    by (cases "id_arg a")
      (simp_all add: main_def ids_of_def Let_def split_def t, simp_all add: init_def logmsg_def Let_def)
  show "fst (main env a w) = None" by (simp add: m)
  show "arena (snd (main env a w)) = Some []" by (simp add: m)
  show "outdir (snd (main env a w)) = outdir w" by (simp add: m)
  show "new_events w (snd (main env a w)) =
        (case id_arg a of PatientList content \<Rightarrow> [(INFO, ReadPatientIds (length (ids_of a)))]
         | Patients ps \<Rightarrow> [])
        @ [(INFO, Starting (length (ids_of a))),
           (INFO, Initialized (length (ids_of a))
              (max_workers (fst (init env (ids_of a) (threads a) w)))),
           (INFO, CreatedTemp (''simple_batch_'' @ tmp_suffix env)),
           (ERROR, NoNdjsonFiles),
           (WARNING, NoResourcesFound),
           (INFO, Preserved (Some (''simple_batch_'' @ tmp_suffix env)))]"
    by (simp add: m new_events_def)
qed


theorem no_input_files_reported_witness:
  "ids_of args_ex \<noteq> [] \<and> glob (fhir world_empty) ''.ndjson.gz'' = [] \<and>
   new_events world_empty (snd (main env_ex args_ex world_empty)) =
     [(INFO, Starting 2), (INFO, Initialized 2 3), (INFO, CreatedTemp ''simple_batch_k3x9''),
      (ERROR, NoNdjsonFiles), (WARNING, NoResourcesFound),
      (INFO, Preserved (Some ''simple_batch_k3x9''))] \<and>
   ids_of args_no_match \<noteq> [] \<and> glob (fhir world_fresh) ''.ndjson.gz'' \<noteq> [] \<and>
   NoNdjsonFiles \<notin> snd ` set (new_events world_fresh (snd (main env_no_match args_no_match world_fresh)))"
proof -
  have h1: "ids_of args_ex \<noteq> []" and h2: "glob (fhir world_empty) ''.ndjson.gz'' = []"
    and h3: "ids_of args_no_match \<noteq> []"
    and h4: "glob (fhir world_fresh) ''.ndjson.gz'' \<noteq> []"
    by (simp_all add: ids_of_def example_defs glob_def endswith_def)
  from no_input_files_reported [OF h1, of world_empty env_ex]
    no_input_files_reported [OF h3, of world_fresh env_no_match] h1 h2 h3 h4
  show ?thesis
    by (simp add: ids_of_def example_defs init_def default_workers_def Let_def)
qed

text \<open>
  After \<open>filter_all_files\<close> has returned, \<open>main\<close> writes the summary and nothing else
  into the temporary directory, and removes nothing from it.
\<close>

lemma arena_file_logmsg [simp]: "arena_file (logmsg lvl m w) name = arena_file w name"
  by (simp add: arena_file_def)

lemma create_summary_files:
  "name \<noteq> ''SUMMARY.txt'' \<Longrightarrow>
   arena_file (snd (create_summary env self tot w)) name = arena_file w name"
  by (auto simp: create_summary_def arena_file_def Let_def update_conv' split: option.splits)

lemma copy_to_output_files:
  "arena_file (snd (copy_to_output env output_path w)) name = arena_file w name"
  by (simp add: arena_file_def copy_to_output_frame)

lemma report_results_files:
  assumes "name \<noteq> ''SUMMARY.txt''"
  shows "arena_file (snd (report_results env a inst tot w)) name = arena_file w name"
proof -
  obtain r w' where c: "create_summary env inst tot w = (r, w')"
    by (cases "create_summary env inst tot w")
  with create_summary_files [OF assms, of env inst tot w]
  have "arena_file w' name = arena_file w name" by simp
  with c show ?thesis
    by (auto simp: report_results_def Let_def copy_to_output_files split: option.splits)
qed

lemma try_block_files:
  assumes "name \<noteq> ''SUMMARY.txt''"
  shows "arena_file (snd (snd (try_block env a inst w))) name
    = arena_file (snd (snd (filter_all_files env inst w))) name"
proof -
  obtain r i w3 where f: "filter_all_files env inst w = (r, i, w3)"
    by (cases "filter_all_files env inst w") auto
  show ?thesis
    using f report_results_files [OF assms, of env a i _ w3]
    by (auto simp: try_block_def split_def split: sum.splits)
qed

lemma try_block_inst:
  "fst (snd (try_block env a inst w)) = fst (snd (filter_all_files env inst w))"
  by (auto simp: try_block_def split_def split: sum.splits prod.splits)

lemma filter_all_files_temp_dir:
  "temp_dir self = None \<Longrightarrow>
   temp_dir (fst (snd (filter_all_files env self w))) = Some (mkdtemp env ''simple_batch_'')"
  by (simp add: filter_all_files_def create_temp_directory_def Let_def split_def)

lemma main_files:
  assumes "ids_of a \<noteq> []" and "name \<noteq> ''SUMMARY.txt''"
  shows "arena_file (snd (main env a w)) name = arena_file (after_filtering env a w) name"
  using assms(1) try_block_files [OF assms(2)]
  by (cases "id_arg a")
    (simp_all add: main_def ids_of_def after_filtering_def Let_def split_def)

lemma main_last_event:
  assumes "ids_of a \<noteq> []"
  shows "last (events (snd (main env a w)))
    = (INFO, Preserved (Some (mkdtemp env ''simple_batch_'')))"
  using assms
  by (cases "id_arg a")
    (simp_all add: main_def ids_of_def Let_def split_def try_block_inst
      filter_all_files_temp_dir logmsg_def)

text \<open>
  C10, as the code has it. \<open>main\<close> never reads the option \<open>--keep-temp\<close>: with
  identifiers given, a run is the same whatever the option says. When \<open>main\<close> ends,
  also with an exception and whatever failed on the way, the temporary directory is
  there, every file the tasks left in it is there with the content it had when
  \<open>filter_all_files\<close> returned (only the summary is added), and the last log line says
  that the directory is preserved. The directory goes only when \<open>cleanup_temp_directory\<close>
  is called on a filter object whose \<open>temp_dir\<close> names it, which \<open>main\<close> never does; on
  an object that names another directory the call changes nothing.
\<close>

theorem temp_directory_always_kept:
  "ids_of a \<noteq> [] \<Longrightarrow>
   main env (a\<lparr>keep_temp := b\<rparr>) w = main env a w \<and>
   arena (snd (main env a w)) \<noteq> None \<and>
   (\<forall>name. name \<noteq> ''SUMMARY.txt'' \<longrightarrow>
      arena_file (snd (main env a w)) name = arena_file (after_filtering env a w) name) \<and>
   last (events (snd (main env a w)))
     = (INFO, Preserved (Some (mkdtemp env ''simple_batch_''))) \<and>
   (temp_dir self = Some (mkdtemp env ''simple_batch_'') \<longrightarrow>
      arena (cleanup_temp_directory env self (snd (main env a w))) = None) \<and>
   (temp_dir self \<noteq> Some (mkdtemp env ''simple_batch_'') \<longrightarrow>
      cleanup_temp_directory env self (snd (main env a w)) = snd (main env a w))"
  using main_arena [of a env w]
  by (auto simp: main_keep_temp main_files main_last_event cleanup_temp_directory_def logmsg_def
      split: option.splits)

text \<open>
  A run with a partial failure: \<open>TypeB.ndjson.gz\<close> cannot be read, the two lines kept
  from \<open>TypeA.ndjson.gz\<close> are in the temporary directory when \<open>main\<close> ends, with and
  without \<open>--keep-temp\<close>.
\<close>

theorem temp_directory_always_kept_witness:
  \<open>ids_of args_ex \<noteq> [] \<and>
    main env_ex (args_ex\<lparr>keep_temp := True\<rparr>) world_partial = main env_ex args_ex world_partial \<and>
    arena (snd (main env_ex args_ex world_partial)) \<noteq> None \<and>
    (WARNING, GrepFailed ''TypeB.ndjson.gz'')
       \<in> set (events (after_filtering env_ex args_ex world_partial)) \<and>
    arena_file (snd (main env_ex args_ex world_partial)) ''TypeA.ndjson''
      = Some [''{"subject":"P001"}'', ''{"subject":"P002"}''] \<and>
    last (events (snd (main env_ex args_ex world_partial)))
      = (INFO, Preserved (Some ''simple_batch_k3x9'')) \<and>
    arena (cleanup_temp_directory env_ex self_ex (snd (main env_ex args_ex world_partial)))
      = None \<and>
    cleanup_temp_directory env_ex (self_ex\<lparr>temp_dir := Some ''elsewhere''\<rparr>)
        (snd (main env_ex args_ex world_partial)) = snd (main env_ex args_ex world_partial)\<close>
proof -
  have h1: "ids_of args_ex \<noteq> []"
    by (simp add: ids_of_def example_defs)
  have h2: "temp_dir self_ex = Some (mkdtemp env_ex ''simple_batch_'')"
    and h3: "temp_dir (self_ex\<lparr>temp_dir := Some ''elsewhere''\<rparr>)
      \<noteq> Some (mkdtemp env_ex ''simple_batch_'')"
    and m: "mkdtemp env_ex ''simple_batch_'' = ''simple_batch_k3x9''"
    by (simp_all add: example_defs mkdtemp_def)
  have n: "''TypeA.ndjson'' \<noteq> ''SUMMARY.txt''" by simp
  have af: \<open>arena_file (after_filtering env_ex args_ex world_partial) ''TypeA.ndjson''
      = Some [''{"subject":"P001"}'', ''{"subject":"P002"}'']\<close>
    by code_simp
  have pf: "(WARNING, GrepFailed ''TypeB.ndjson.gz'')
       \<in> set (events (after_filtering env_ex args_ex world_partial))"
    by code_simp
  note k = temp_directory_always_kept [OF h1, where env = env_ex and b = True
      and w = world_partial and self = self_ex]
  note k' = temp_directory_always_kept [OF h1, where env = env_ex and b = True
      and w = world_partial and self = "self_ex\<lparr>temp_dir := Some ''elsewhere''\<rparr>"]
  note a = k [THEN conjunct1]
  note b = k [THEN conjunct2, THEN conjunct1]
  note c = k [THEN conjunct2, THEN conjunct2, THEN conjunct1, rule_format, OF n]
  note d = k [THEN conjunct2, THEN conjunct2, THEN conjunct2, THEN conjunct1]
  note e = k [THEN conjunct2, THEN conjunct2, THEN conjunct2, THEN conjunct2, THEN conjunct1,
      rule_format, OF h2]
  note f = k' [THEN conjunct2, THEN conjunct2, THEN conjunct2, THEN conjunct2, THEN conjunct2,
      rule_format, OF h3]
  have c': \<open>arena_file (snd (main env_ex args_ex world_partial)) ''TypeA.ndjson''
      = Some [''{"subject":"P001"}'', ''{"subject":"P002"}'']\<close>
    by (simp only: c af)
  have d': "last (events (snd (main env_ex args_ex world_partial)))
      = (INFO, Preserved (Some ''simple_batch_k3x9''))"
    using d by (simp only: m)
  show ?thesis
    by (intro conjI) (fact h1, fact a, fact b, fact pf, fact c', fact d', fact e, fact f)
qed

text \<open>
  C10 as stated fails in its first part: with \<open>--keep-temp\<close> not given, the temporary
  directory is still there at the end of the run.
\<close>

theorem C10_counterexample:
  "keep_temp args_ex = False \<and> arena (snd (main env_ex args_ex world_fresh)) \<noteq> None"
  using main_arena [of args_ex env_ex world_fresh]
  by (simp add: ids_of_def example_defs)

section \<open>The identifier set\<close>

text \<open>
  Stripping a line does not see the carriage return a CRLF line end leaves at its end,
  and a stripped line is kept exactly when the line is neither blank nor a comment.
\<close>

lemma isspace_CR [simp]: "isspace CR"
  by (simp add: isspace_def CR_def)

lemma strip_without_cr: "strip (without_cr l) = strip l"
proof (cases "l \<noteq> [] \<and> last l = CR")
  case False
  then show ?thesis by (auto simp: without_cr_def)
next
  case True
  then obtain p where l: "l = p @ [CR]" by (metis append_butlast_last_id)
  show ?thesis
    by (auto simp: l without_cr_def strip_def dropWhile_append dest: set_dropWhileD)
qed

lemma strip_keeps_first:
  "\<not> isspace c \<Longrightarrow> strip (c # cs) = c # rev (dropWhile isspace (rev cs))"
  by (simp add: strip_def dropWhile_append dropWhile_eq_Nil_conv)

lemma strip_dropWhile: "strip (dropWhile isspace l) = strip l"
  by (simp add: strip_def)

lemma keep_patient_id_strip: "keep_patient_id (strip l) \<longleftrightarrow> \<not> ignored_line l"
proof (cases "dropWhile isspace l")
  case Nil
  then have a: "list_all isspace l" by (simp add: dropWhile_eq_Nil_conv list_all_iff)
  show ?thesis
    unfolding strip_def Nil using a by (simp add: keep_patient_id_def ignored_line_def)
next
  case (Cons c cs)
  then have c: "\<not> isspace c" by (metis hd_dropWhile list.distinct(1) list.sel(1))
  from Cons have n: "\<not> list_all isspace l"
    by (auto simp: list_all_iff dropWhile_eq_Nil_conv [symmetric])
  have "strip l = strip (c # cs)" using strip_dropWhile [of l] Cons by simp
  with strip_keeps_first [OF c, of cs] have "strip l = c # rev (dropWhile isspace (rev cs))"
    by simp
  with Cons n show ?thesis
    by (simp add: keep_patient_id_def ignored_line_def startswith_prefix)
qed

lemma strip_Nil [simp]: "strip [] = []"
  by (simp add: strip_def)

lemma read_patient_list_lines:
  assumes "\<forall>l\<in>set ls. LF \<notin> set l \<and> CR \<notin> set (butlast l)" and "LF \<notin> set t" and "CR \<notin> set t"
  shows "read_patient_list (unlines ls @ t)
    = map strip (filter (\<lambda>l. \<not> ignored_line l) (ls @ [t]))"
proof -
  have "read_patient_list (unlines ls @ t)
      = filter keep_patient_id (map strip (map without_cr ls @ (if t = [] then [] else [t])))"
    by (simp only: read_patient_list_def read_lines [OF assms])
  also have "\<dots> = filter keep_patient_id (map strip (ls @ [t]))"
    by (simp add: strip_without_cr keep_patient_id_def o_def)
  also have "\<dots> = map strip (filter (\<lambda>l. \<not> ignored_line l) (ls @ [t]))"
    by (simp only: filter_map o_def keep_patient_id_strip)
  finally show ?thesis .
qed

text \<open>
  C7. An identifier file is a sequence of lines, each ended by a line feed or by a
  carriage return and a line feed, and possibly a last line without a line end. Of these
  lines \<open>read_patient_list\<close> ignores the blank ones (empty or white space only) and the
  comments (\<open>#\<close> as first character, also after white space), and returns every other
  line, stripped, in the order of the file. The filter object keeps the identifiers as a
  set: its elements are the stripped lines that are not ignored, and a list with
  duplicates gives as many elements as it has distinct identifiers.
\<close>

theorem identifier_file_ignores_blank_and_comment:
  "\<forall>l\<in>set ls. LF \<notin> set l \<and> CR \<notin> set (butlast l) \<Longrightarrow> LF \<notin> set t \<Longrightarrow> CR \<notin> set t \<Longrightarrow>
   read_patient_list (unlines ls @ t)
     = map strip (filter (\<lambda>l. \<not> ignored_line l) (ls @ [t])) \<and>
   patient_ids (fst (init env (read_patient_list (unlines ls @ t)) n w))
     = strip ` {l \<in> set (ls @ [t]). \<not> ignored_line l} \<and>
   card (patient_ids (fst (init env (read_patient_list (unlines ls @ t)) n w)))
     = length (remdups (map strip (filter (\<lambda>l. \<not> ignored_line l) (ls @ [t])))) \<and>
   (list_all isspace l0 \<or> prefix ''#'' l0 \<longrightarrow> ignored_line l0)"
proof (intro conjI)
  assume a: "\<forall>l\<in>set ls. LF \<notin> set l \<and> CR \<notin> set (butlast l)" "LF \<notin> set t" "CR \<notin> set t"
  note r = read_patient_list_lines [OF a]
  show "read_patient_list (unlines ls @ t)
     = map strip (filter (\<lambda>l. \<not> ignored_line l) (ls @ [t]))" by (rule r)
  show "patient_ids (fst (init env (read_patient_list (unlines ls @ t)) n w))
     = strip ` {l \<in> set (ls @ [t]). \<not> ignored_line l}"
    unfolding r by (auto simp: init_def Let_def)
  show "card (patient_ids (fst (init env (read_patient_list (unlines ls @ t)) n w)))
     = length (remdups (map strip (filter (\<lambda>l. \<not> ignored_line l) (ls @ [t]))))"
    unfolding r by (simp add: init_def Let_def card_set del: set_map set_filter filter_append map_append)
next
  show "list_all isspace l0 \<or> prefix ''#'' l0 \<longrightarrow> ignored_line l0"
  proof (cases l0)
    case Nil
    then show ?thesis by (simp add: ignored_line_def)
  next
    case (Cons c cs)
    have "\<not> isspace CHR ''#''" by (simp add: isspace_def)
    with Cons show ?thesis by (auto simp: ignored_line_def)
  qed
qed


text \<open>
  The example of C7: the lines \<open>P001\<close>, a blank line and \<open># comment\<close> give the
  identifier set \<open>{P001}\<close>, of size 1.
\<close>

theorem identifier_file_ignores_blank_and_comment_witness:
  "read_patient_list (unlines [''P001'', [], ''# comment'']) = [''P001''] \<and>
   patient_ids (fst (init env_ex (read_patient_list (unlines [''P001'', [], ''# comment'']))
      None world_fresh)) = {''P001''} \<and>
   card (patient_ids (fst (init env_ex (read_patient_list (unlines [''P001'', [], ''# comment'']))
      None world_fresh))) = 1 \<and>
   ignored_line [] \<and> ignored_line ''# comment''"
proof -
  let ?ls = "[''P001'', [], ''# comment'']"
  have h1: "\<forall>l\<in>set ?ls. LF \<notin> set l \<and> CR \<notin> set (butlast l)"
    and h2: "LF \<notin> set []" and h3: "CR \<notin> set []"
    by (simp_all add: char_defs)
  have i: "\<not> ignored_line ''P001''" "ignored_line []" "ignored_line ''# comment''"
    by (simp_all add: ignored_line_def isspace_def)
  have s: "strip ''P001'' = ''P001''"
    by (simp add: strip_def isspace_def)
  have k: "map strip (filter (\<lambda>l. \<not> ignored_line l) (?ls @ [Nil])) = [''P001'']"
    by (simp add: i s)
  have "strip ` {l \<in> set (?ls @ [Nil]). \<not> ignored_line l}
      = set (map strip (filter (\<lambda>l. \<not> ignored_line l) (?ls @ [Nil])))"
    by (simp only: set_map set_filter)
  then have c: "strip ` {l \<in> set (?ls @ [Nil]). \<not> ignored_line l} = {''P001''}"
    by (simp only: k) simp
  note t = identifier_file_ignores_blank_and_comment [OF h1 h2 h3, where env = env_ex
      and n = None and w = world_fresh]
  note t1 = t [where ?l0.0 = "[]", THEN conjunct1]
  note t2 = t [where ?l0.0 = "[]", THEN conjunct2, THEN conjunct1]
  note t3 = t [where ?l0.0 = "[]", THEN conjunct2, THEN conjunct2, THEN conjunct1]
  note t4 = t [where ?l0.0 = "[]", THEN conjunct2, THEN conjunct2, THEN conjunct2]
  note t5 = t [where ?l0.0 = "''# comment''", THEN conjunct2, THEN conjunct2, THEN conjunct2]
  have a: "read_patient_list (unlines ?ls) = [''P001'']"
    using t1 by (simp only: k append_Nil2)
  have b: "patient_ids (fst (init env_ex (read_patient_list (unlines ?ls)) None world_fresh))
      = {''P001''}"
    using t2 by (simp only: c append_Nil2)
  have d: "card (patient_ids (fst (init env_ex (read_patient_list (unlines ?ls)) None
      world_fresh))) = 1"
    using t3 by (simp only: k append_Nil2) simp
  have e: "ignored_line []" using t4 by simp
  have f: "ignored_line ''# comment''" using t5 by simp
  from a b d e f show ?thesis by (intro conjI)
qed

text \<open>
  A file with CRLF line ends, a duplicate, an indented comment and no line end after the
  last line.
\<close>

lemma identifier_file_crlf_example:
  "read_patient_list (''P001'' @ [CR, LF] @ '' P002 '' @ [CR, LF] @ [CR, LF]
      @ ''  # x'' @ [CR, LF] @ ''P001'') = [''P001'', ''P002'', ''P001''] \<and>
   patient_ids (fst (init env_ex [''P001'', ''P002'', ''P001''] None world_fresh))
     = {''P001'', ''P002''}"
  by (auto simp: read_patient_list_def text_lines_def char_defs strip_def isspace_def
      keep_patient_id_def init_def Let_def)

section \<open>Two runs on the same input\<close>

text \<open>
  C3 at seven identifiers. \<open>create_summary\<close> takes the first five identifiers in the
  order in which Python iterates over the set and sorts them afterwards. Two runs that
  differ only in that iteration order (both orders list the same set, without
  repetition) write different \<open>SUMMARY.txt\<close> files for the same identifiers and the same
  FHIR directory.
\<close>

theorem summary_depends_on_set_order:
  "set (set_iter env_order_a (set (ids_of args_six))) = set (ids_of args_six) \<and>
   distinct (set_iter env_order_a (set (ids_of args_six))) \<and>
   set (set_iter env_order_b (set (ids_of args_six))) = set (ids_of args_six) \<and>
   distinct (set_iter env_order_b (set (ids_of args_six))) \<and>
   arena_file (snd (main env_order_a args_six world_fresh)) ''SUMMARY.txt'' =
     Some [''SIMPLE BATCH FILTERING SUMMARY'',
           ''========================================'', [], ''Target patients: 7'',
           ''Patient IDs: P001, P1, P2, P3, P4...'', [],
           ''TypeA.ndjson                                    1 resources'',
           ''--------------------------------------------------'',
           ''TOTAL                                           1 resources''] \<and>
   arena_file (snd (main env_order_b args_six world_fresh)) ''SUMMARY.txt'' =
     Some [''SIMPLE BATCH FILTERING SUMMARY'',
           ''========================================'', [], ''Target patients: 7'',
           ''Patient IDs: P2, P3, P4, P5, P6...'', [],
           ''TypeA.ndjson                                    1 resources'',
           ''--------------------------------------------------'',
           ''TOTAL                                           1 resources'']"
proof (intro conjI)
  show "set (set_iter env_order_a (set (ids_of args_six))) = set (ids_of args_six)"
    by (simp add: example_defs ids_of_def)
  show "distinct (set_iter env_order_a (set (ids_of args_six)))"
    by (simp add: example_defs ids_of_def)
  show "set (set_iter env_order_b (set (ids_of args_six))) = set (ids_of args_six)"
    by (auto simp: example_defs ids_of_def)
  show "distinct (set_iter env_order_b (set (ids_of args_six)))"
    by (simp add: example_defs ids_of_def)
  show "arena_file (snd (main env_order_a args_six world_fresh)) ''SUMMARY.txt'' =
     Some [''SIMPLE BATCH FILTERING SUMMARY'',
           ''========================================'', [], ''Target patients: 7'',
           ''Patient IDs: P001, P1, P2, P3, P4...'', [],
           ''TypeA.ndjson                                    1 resources'',
           ''--------------------------------------------------'',
           ''TOTAL                                           1 resources'']"
    by code_simp
  show "arena_file (snd (main env_order_b args_six world_fresh)) ''SUMMARY.txt'' =
     Some [''SIMPLE BATCH FILTERING SUMMARY'',
           ''========================================'', [], ''Target patients: 7'',
           ''Patient IDs: P2, P3, P4, P5, P6...'', [],
           ''TypeA.ndjson                                    1 resources'',
           ''--------------------------------------------------'',
           ''TOTAL                                           1 resources'']"
    by code_simp
qed

end
